theory Spec2Isabelle
  imports Complex_Main "HOL-Library.AList"
begin

section \<open>Python values, exceptions and tables\<close>

text \<open>
  The repository is Python on top of numpy, pandas and scikit-learn. Exceptions are
  values of \<open>exn\<close>; a call that may raise returns \<open>exn + 'a\<close> with \<open>Inl\<close> the
  exception. \<open>KeyError\<close> carries the missing keys, the others their message;
  \<open>Raised\<close> is an exception of any other class, named by its class, as a library
  may raise it. Python floats are modelled as real numbers, with \<open>NaN\<close> and
  \<open>PosInf\<close> as cells of their own where pandas produces them.
\<close>

datatype exn =
    KeyError "string list"
  | ValueError string
  | TypeError string
  | AttributeError string
  | OverflowError string
  | Raised string

text \<open>
  A \<open>datetime\<close> (naive, no time zone). The date is kept as its proleptic Gregorian
  ordinal (\<open>date.toordinal()\<close>, day 1 is 0001-01-01, a Monday), the time of day
  by its fields.
\<close>

record datetime =
  dt_ordinal :: int
  dt_hour :: int
  dt_minute :: int
  dt_second :: int
  dt_microsecond :: int

definition MAXORDINAL :: int where
  "MAXORDINAL = 3652059"

definition valid_datetime :: "datetime \<Rightarrow> bool" where
  "valid_datetime t =
     (0 < dt_ordinal t \<and> dt_ordinal t \<le> MAXORDINAL \<and>
      0 \<le> dt_hour t \<and> dt_hour t < 24 \<and>
      0 \<le> dt_minute t \<and> dt_minute t < 60 \<and>
      0 \<le> dt_second t \<and> dt_second t < 60 \<and>
      0 \<le> dt_microsecond t \<and> dt_microsecond t < 1000000)"

datatype cell = Str string | Num real | Time datetime | Bool bool | NaN | PosInf

text \<open>
  A pandas \<open>DataFrame\<close>: the length of its index and its columns in order, each a
  name with the cells of the column. A frame is well formed when the names are distinct
  and every column is as long as the index; a name is looked up by its first column.
  pandas keeps a dtype for every column. The cells of a column tell it, except when the
  column has no cell: \<open>empty_datetime64\<close> names the columns without cells whose dtype
  is \<open>datetime64[ns]\<close> (as in \<open>df.iloc[0:0]\<close> of a table of events); the other
  columns without cells have the dtype \<open>object\<close> or a numeric one (as in
  \<open>pd.DataFrame(columns=names)\<close>).
\<close>

record frame =
  nrows :: nat
  cols :: "(string \<times> cell list) list"
  empty_datetime64 :: "string list"

definition columns :: "frame \<Rightarrow> string list" where
  "columns df = map fst (cols df)"


text \<open>
  \<open>df[c]\<close> raises \<open>KeyError\<close> on a missing column. \<open>df[c] = values\<close>
  replaces the column in place or appends a new one at the end, and raises
  \<open>ValueError\<close> when the values do not have the length of the index; \<open>assign\<close>
  is the same assignment for a series computed from the frame itself, whose length
  is that of the index. \<open>df[c] = v\<close> with a scalar fills the column.
  \<open>df[names]\<close> keeps the named columns in the order given and raises
  \<open>KeyError\<close> with the names that are not columns.
\<close>

definition column :: "frame \<Rightarrow> string \<Rightarrow> exn + cell list" where
  "column df c =
     (case map_of (cols df) c of None \<Rightarrow> Inl (KeyError [c]) | Some vs \<Rightarrow> Inr vs)"

definition assign :: "frame \<Rightarrow> string \<Rightarrow> cell list \<Rightarrow> frame" where
  "assign df c vs = df\<lparr>cols := AList.update c vs (cols df)\<rparr>"

definition set_column :: "frame \<Rightarrow> string \<Rightarrow> cell list \<Rightarrow> exn + frame" where
  "set_column df c vs =
     (if length vs = nrows df then Inr (assign df c vs)
      else Inl (ValueError ''Length of values does not match length of index''))"

definition set_scalar :: "frame \<Rightarrow> string \<Rightarrow> cell \<Rightarrow> frame" where
  "set_scalar df c v = assign df c (replicate (nrows df) v)"

definition select :: "frame \<Rightarrow> string list \<Rightarrow> exn + frame" where
  "select df cs =
     (case filter (\<lambda>c. c \<notin> set (columns df)) cs of
        [] \<Rightarrow>
          Inr (df\<lparr>cols :=
                 map (\<lambda>c. (c, case map_of (cols df) c of Some vs \<Rightarrow> vs | None \<Rightarrow> [])) cs\<rparr>)
      | m # ms \<Rightarrow> Inl (KeyError (m # ms)))"

definition drop_column :: "string \<Rightarrow> frame \<Rightarrow> frame" where
  "drop_column c df = df\<lparr>cols := filter (\<lambda>p. fst p \<noteq> c) (cols df)\<rparr>"

text \<open>
  \<open>pd.DataFrame(rows)\<close> for a list of dicts: the columns are the keys in the order
  they are first seen, a key a dict lacks gives \<open>NaN\<close>, and an empty list gives
  the frame with no rows and no columns.
\<close>

definition first_seen :: "'a list \<Rightarrow> 'a list" where
  "first_seen xs = rev (remdups (rev xs))"

definition DataFrame :: "(string \<times> cell) list list \<Rightarrow> frame" where
  "DataFrame dicts =
     \<lparr>nrows = length dicts,
      cols = map (\<lambda>k. (k, map (\<lambda>d. case map_of d k of Some v \<Rightarrow> v | None \<Rightarrow> NaN) dicts))
               (first_seen (concat (map (map fst) dicts))),
      empty_datetime64 = []\<rparr>"

text \<open>
  The rows of a frame, each as the dict from column name to cell that
  \<open>df.iloc[i].to_dict()\<close> gives.
\<close>

definition row_at :: "frame \<Rightarrow> nat \<Rightarrow> string \<Rightarrow> cell option" where
  "row_at df i c =
     (case map_of (cols df) c of
        None \<Rightarrow> None
      | Some vs \<Rightarrow> if i < length vs then Some (vs ! i) else None)"

definition frame_rows :: "frame \<Rightarrow> (string \<Rightarrow> cell option) list" where
  "frame_rows df = map (row_at df) [0..<nrows df]"

subsection \<open>Numbers and text\<close>

text \<open>
  Python's \<open>round(x, nd)\<close> and numpy's \<open>round\<close> both round half to even;
  \<open>np.clip\<close> is \<open>minimum(maximum(x, lo), hi)\<close>; \<open>int(x)\<close> truncates toward
  zero; \<open>py_str\<close> is the decimal text an f-string gives an int.
\<close>

definition round_half_even :: "real \<Rightarrow> int" where
  "round_half_even x =
     (let f = \<lfloor>x\<rfloor>; d = x - of_int f
      in if d < 1 / 2 then f else if 1 / 2 < d then f + 1 else if even f then f else f + 1)"

definition py_round :: "real \<Rightarrow> nat \<Rightarrow> real" where
  "py_round x nd = of_int (round_half_even (x * 10 ^ nd)) / 10 ^ nd"

definition np_clip :: "real \<Rightarrow> real \<Rightarrow> real \<Rightarrow> real" where
  "np_clip x lo hi = min (max x lo) hi"

definition py_int :: "real \<Rightarrow> int" where
  "py_int x = (if 0 \<le> x then \<lfloor>x\<rfloor> else \<lceil>x\<rceil>)"

fun digits :: "nat \<Rightarrow> string" where
  "digits n =
     (if n < 10 then [''0123456789'' ! n] else digits (n div 10) @ [''0123456789'' ! (n mod 10)])"

declare digits.simps [simp del]

definition py_str :: "int \<Rightarrow> string" where
  "py_str i = (if i < 0 then CHR ''-'' # digits (nat (- i)) else digits (nat i))"

subsection \<open>Dates and durations\<close>

text \<open>
  A \<open>timedelta\<close> is its length in microseconds; the constructor raises
  \<open>OverflowError\<close> when the normalised number of days leaves the range Python
  allows. Adding a duration to a \<open>datetime\<close> raises \<open>OverflowError\<close> when the
  day leaves \<open>1..MAXORDINAL\<close>. \<open>replace\<close> with an hour and a minute raises
  \<open>ValueError\<close> on a field out of range.
\<close>

definition us_per_day :: int where
  "us_per_day = 86400000000"

definition timedelta :: "int \<Rightarrow> int \<Rightarrow> int \<Rightarrow> exn + int" where
  "timedelta days hours minutes =
     (let us = days * us_per_day + hours * 3600000000 + minutes * 60000000
      in if \<bar>us div us_per_day\<bar> > 999999999
         then Inl (OverflowError ''days out of range'') else Inr us)"

definition time_of_day_us :: "datetime \<Rightarrow> int" where
  "time_of_day_us t =
     ((dt_hour t * 60 + dt_minute t) * 60 + dt_second t) * 1000000 + dt_microsecond t"

definition dt_plus :: "datetime \<Rightarrow> int \<Rightarrow> exn + datetime" where
  "dt_plus t td =
     (let total = time_of_day_us t + td;
          day = dt_ordinal t + total div us_per_day;
          r = total mod us_per_day
      in if 0 < day \<and> day \<le> MAXORDINAL
         then Inr \<lparr>dt_ordinal = day, dt_hour = r div 3600000000,
                   dt_minute = r div 60000000 mod 60, dt_second = r div 1000000 mod 60,
                   dt_microsecond = r mod 1000000\<rparr>
         else Inl (OverflowError ''date value out of range''))"

definition dt_minus :: "datetime \<Rightarrow> int \<Rightarrow> exn + datetime" where
  "dt_minus t td = dt_plus t (- td)"

definition replace_hour_minute :: "datetime \<Rightarrow> int \<Rightarrow> int \<Rightarrow> exn + datetime" where
  "replace_hour_minute t h m =
     (if 0 \<le> h \<and> h < 24 \<and> 0 \<le> m \<and> m < 60 then Inr (t\<lparr>dt_hour := h, dt_minute := m\<rparr>)
      else Inl (ValueError ''field out of range''))"

definition weekday :: "datetime \<Rightarrow> int" where
  "weekday t = (dt_ordinal t + 6) mod 7"

section \<open>config.py\<close>

definition RANDOM_SEED :: int where
  "RANDOM_SEED = 42"

definition FILE_TYPES :: "string list" where
  "FILE_TYPES = [''PDF'', ''Excel'', ''Database export'', ''CSV'', ''Doc'', ''PPT'', ''Image'']"

definition ACTIONS :: "string list" where
  "ACTIONS = [''view'', ''download'']"

definition WORK_START_HOUR :: int where
  "WORK_START_HOUR = 8"

definition WORK_END_HOUR :: int where
  "WORK_END_HOUR = 19"

definition TYPICAL_HOUR_MEAN :: int where
  "TYPICAL_HOUR_MEAN = 13"

definition TYPICAL_HOUR_STD :: real where
  "TYPICAL_HOUR_STD = 5 / 2"

section \<open>data_generator.py\<close>

subsection \<open>The sources of randomness\<close>

text \<open>
  The generators draw from three sources that the module does not define: numpy's
  global generator (\<open>np.random.*\<close>), Python's global generator (\<open>random.*\<close>),
  both seeded with \<open>RANDOM_SEED\<close> when the module is imported, and the operating
  system's entropy, which \<open>uuid.uuid4()\<close> reads and no seed reaches. Each source
  is a state of its own, and the library functions are parameters: a draw takes the
  state of its source and returns the value with the next state.
\<close>

record ('g, 'r, 'e) sources =
  np_random_randint :: "int \<Rightarrow> int \<Rightarrow> 'g \<Rightarrow> int \<times> 'g"
  np_random_normal :: "real \<Rightarrow> real \<Rightarrow> 'g \<Rightarrow> real \<times> 'g"
  np_random_exponential :: "real \<Rightarrow> 'g \<Rightarrow> real \<times> 'g"
  np_random_uniform :: "real \<Rightarrow> real \<Rightarrow> 'g \<Rightarrow> real \<times> 'g"
  random_choices :: "string list \<Rightarrow> nat list \<Rightarrow> 'r \<Rightarrow> string \<times> 'r"
  random_choice :: "string list \<Rightarrow> 'r \<Rightarrow> string \<times> 'r"
  uuid_uuid4 :: "'e \<Rightarrow> string \<times> 'e"

record ('g, 'r, 'e) world =
  np_state :: 'g
  py_state :: 'r
  os_entropy :: 'e

text \<open>
  What numpy promises of a draw, as far as the proofs need it: \<open>randint(lo, hi)\<close>
  lies in \<open>[lo, hi)\<close>, and \<open>uniform(lo, hi)\<close> between its bounds (numpy documents
  that rounding may return the upper one).
\<close>

definition randint_in_range :: "('g, 'r, 'e) sources \<Rightarrow> bool" where
  "randint_in_range S =
     (\<forall>lo hi g. lo < hi \<longrightarrow>
        lo \<le> fst (np_random_randint S lo hi g) \<and> fst (np_random_randint S lo hi g) < hi)"


text \<open>
  A computation in the world of the three sources either raises or returns a value and
  the world it leaves.
\<close>

type_synonym ('a, 'g, 'r, 'e) gen = "('g, 'r, 'e) world \<Rightarrow> exn + ('a \<times> ('g, 'r, 'e) world)"

definition pure :: "'a \<Rightarrow> ('a, 'g, 'r, 'e) gen" where
  "pure a w = Inr (a, w)"

definition lift :: "exn + 'a \<Rightarrow> ('a, 'g, 'r, 'e) gen" where
  "lift r w = (case r of Inl e \<Rightarrow> Inl e | Inr a \<Rightarrow> Inr (a, w))"

definition and_then ::
  "('a, 'g, 'r, 'e) gen \<Rightarrow> ('a \<Rightarrow> ('b, 'g, 'r, 'e) gen) \<Rightarrow> ('b, 'g, 'r, 'e) gen" where
  "and_then m f w = (case m w of Inl e \<Rightarrow> Inl e | Inr (a, w') \<Rightarrow> f a w')"

definition randint :: "('g, 'r, 'e) sources \<Rightarrow> int \<Rightarrow> int \<Rightarrow> (int, 'g, 'r, 'e) gen" where
  "randint S lo hi w =
     (if hi \<le> lo then Inl (ValueError ''low >= high'')
      else case np_random_randint S lo hi (np_state w) of
             (v, g) \<Rightarrow> Inr (v, w\<lparr>np_state := g\<rparr>))"

definition normal :: "('g, 'r, 'e) sources \<Rightarrow> real \<Rightarrow> real \<Rightarrow> (real, 'g, 'r, 'e) gen" where
  "normal S loc scale w =
     (case np_random_normal S loc scale (np_state w) of (v, g) \<Rightarrow> Inr (v, w\<lparr>np_state := g\<rparr>))"

definition exponential :: "('g, 'r, 'e) sources \<Rightarrow> real \<Rightarrow> (real, 'g, 'r, 'e) gen" where
  "exponential S scale w =
     (case np_random_exponential S scale (np_state w) of (v, g) \<Rightarrow> Inr (v, w\<lparr>np_state := g\<rparr>))"

definition uniform :: "('g, 'r, 'e) sources \<Rightarrow> real \<Rightarrow> real \<Rightarrow> (real, 'g, 'r, 'e) gen" where
  "uniform S lo hi w =
     (case np_random_uniform S lo hi (np_state w) of (v, g) \<Rightarrow> Inr (v, w\<lparr>np_state := g\<rparr>))"

definition choices ::
  "('g, 'r, 'e) sources \<Rightarrow> string list \<Rightarrow> nat list \<Rightarrow> (string, 'g, 'r, 'e) gen" where
  "choices S population weights w =
     (case random_choices S population weights (py_state w) of
        (v, r) \<Rightarrow> Inr (v, w\<lparr>py_state := r\<rparr>))"

definition choice :: "('g, 'r, 'e) sources \<Rightarrow> string list \<Rightarrow> (string, 'g, 'r, 'e) gen" where
  "choice S population w =
     (case random_choice S population (py_state w) of (v, r) \<Rightarrow> Inr (v, w\<lparr>py_state := r\<rparr>))"

definition uuid4 :: "('g, 'r, 'e) sources \<Rightarrow> (string, 'g, 'r, 'e) gen" where
  "uuid4 S w = (case uuid_uuid4 S (os_entropy w) of (v, e) \<Rightarrow> Inr (v, w\<lparr>os_entropy := e\<rparr>))"

text \<open>
  \<open>for _ in range(n): rows.append(...)\<close>: the body runs \<open>n\<close> times, each time in the
  world the run before left, and the rows come in the order they were appended.
\<close>

fun for_range :: "nat \<Rightarrow> ('a, 'g, 'r, 'e) gen \<Rightarrow> ('a list, 'g, 'r, 'e) gen" where
  "for_range 0 body = pure []"
| "for_range (Suc k) body =
     and_then body (\<lambda>row. and_then (for_range k body) (\<lambda>rows. pure (row # rows)))"

subsection \<open>DataGenerator\<close>

definition file_type_weights :: "nat list" where
  "file_type_weights = [35, 20, 5, 15, 10, 8, 7]"

definition action_weights :: "nat list" where
  "action_weights = [75, 25]"

definition event_columns :: "string list" where
  "event_columns =
     [''event_id'', ''user_id'', ''file_type'', ''file_size_MB'', ''access_time'', ''action'']"

definition random_user :: "('g, 'r, 'e) sources \<Rightarrow> (string, 'g, 'r, 'e) gen" where
  "random_user S = and_then (randint S 100 999) (\<lambda>i. pure (''employee'' @ py_str i))"

definition generate_file_size ::
  "('g, 'r, 'e) sources \<Rightarrow> string \<Rightarrow> string \<Rightarrow> (real, 'g, 'r, 'e) gen" where
  "generate_file_size S file_type action =
     and_then
       (if file_type = ''Database export''
        then and_then (exponential S 15) (\<lambda>x. pure (x + 10))
        else if file_type \<in> set [''Excel'', ''PPT'', ''Doc'']
        then and_then (exponential S 3) (\<lambda>x. pure (x + 1))
        else if file_type \<in> set [''PDF'', ''CSV'']
        then and_then (exponential S 2) (\<lambda>x. pure (x + 0.5))
        else and_then (exponential S 1.5) (\<lambda>x. pure (x + 0.2)))
       (\<lambda>base.
          let multiplier = (if action = ''download'' then 1.3 else 1.0)
          in pure (np_clip (base * multiplier) 0.1 120.0))"

definition normal_event ::
  "('g, 'r, 'e) sources \<Rightarrow> datetime \<Rightarrow> int \<Rightarrow> ((string \<times> cell) list, 'g, 'r, 'e) gen" where
  "normal_event S start_date days =
     and_then (random_user S) (\<lambda>user.
     and_then (choices S FILE_TYPES file_type_weights) (\<lambda>file_type.
     and_then (choices S ACTIONS action_weights) (\<lambda>action.
     and_then (randint S 0 days) (\<lambda>day_offset.
     and_then (normal S (of_int TYPICAL_HOUR_MEAN) TYPICAL_HOUR_STD) (\<lambda>x.
     let hour = py_int (np_clip x (of_int WORK_START_HOUR) (of_int WORK_END_HOUR)) in
     and_then (randint S 0 60) (\<lambda>minute.
     and_then (lift (timedelta day_offset hour minute)) (\<lambda>td.
     and_then (lift (dt_plus start_date td)) (\<lambda>access_time.
     and_then (generate_file_size S file_type action) (\<lambda>file_size.
     and_then (uuid4 S) (\<lambda>event_id.
     pure [(''event_id'', Str event_id),
           (''user_id'', Str user),
           (''file_type'', Str file_type),
           (''file_size_MB'', Num (py_round file_size 3)),
           (''access_time'', Time access_time),
           (''action'', Str action)]))))))))))"

text \<open>
  \<open>start_date\<close> is optional; without it the clock is read (\<open>now\<close>). \<open>range(n)\<close> is
  empty for \<open>n \<le> 0\<close>.
\<close>

definition generate_normal_events ::
  "('g, 'r, 'e) sources \<Rightarrow> int \<Rightarrow> datetime option \<Rightarrow> int \<Rightarrow> datetime \<Rightarrow>
     (frame, 'g, 'r, 'e) gen" where
  "generate_normal_events S n start_date days now =
     and_then
       (case start_date of
          None \<Rightarrow> and_then (lift (timedelta days 0 0)) (\<lambda>td. lift (dt_minus now td))
        | Some d \<Rightarrow> pure d)
       (\<lambda>start_date.
          and_then (for_range (nat n) (normal_event S start_date days))
            (\<lambda>rows. pure (DataFrame rows)))"

definition label_or ::
  "string option \<Rightarrow> (string, 'g, 'r, 'e) gen \<Rightarrow> (string, 'g, 'r, 'e) gen" where
  "label_or label_user draw =
     (case label_user of None \<Rightarrow> draw | Some u \<Rightarrow> if u = [] then draw else pure u)"

definition mass_download_event ::
  "('g, 'r, 'e) sources \<Rightarrow> datetime \<Rightarrow> string \<Rightarrow> ((string \<times> cell) list, 'g, 'r, 'e) gen" where
  "mass_download_event S base_time susp_user =
     and_then (randint S 0 180) (\<lambda>offset_min.
     and_then (lift (timedelta 0 0 offset_min)) (\<lambda>td.
     and_then (lift (dt_plus base_time td)) (\<lambda>access_time.
     and_then (choices S [''PDF'', ''Database export'', ''Excel''] [70, 20, 10]) (\<lambda>file_type.
     let action = ''download'' in
     and_then
       (if file_type = ''Database export'' then uniform S 50 300
        else if file_type = ''PDF'' then uniform S 5 50
        else uniform S 10 80) (\<lambda>file_size.
     and_then (uuid4 S) (\<lambda>event_id.
     pure [(''event_id'', Str event_id),
           (''user_id'', Str susp_user),
           (''file_type'', Str file_type),
           (''file_size_MB'', Num (py_round file_size 3)),
           (''access_time'', Time access_time),
           (''action'', Str action)]))))))"

definition generate_mass_downloads ::
  "('g, 'r, 'e) sources \<Rightarrow> int \<Rightarrow> datetime \<Rightarrow> string option \<Rightarrow> (frame, 'g, 'r, 'e) gen" where
  "generate_mass_downloads S n start_date label_user =
     and_then
       (label_or label_user
          (and_then (randint S 900 999) (\<lambda>i. pure (''employee'' @ py_str i))))
       (\<lambda>susp_user.
          let base_time =
                start_date\<lparr>dt_hour := 2, dt_minute := 0, dt_second := 0, dt_microsecond := 0\<rparr>
          in and_then (for_range (nat n) (mass_download_event S base_time susp_user))
               (\<lambda>rows. pure (DataFrame rows)))"

definition generic_suspicious_event ::
  "('g, 'r, 'e) sources \<Rightarrow> datetime \<Rightarrow> string option \<Rightarrow>
     ((string \<times> cell) list, 'g, 'r, 'e) gen" where
  "generic_suspicious_event S start_date label_user =
     and_then (label_or label_user (random_user S)) (\<lambda>user.
     and_then (randint S 0 3) (\<lambda>day_offset.
     and_then (lift (timedelta day_offset 0 0)) (\<lambda>td.
     and_then (lift (dt_minus start_date td)) (\<lambda>day.
     and_then (randint S 0 60) (\<lambda>minute.
     and_then (lift (replace_hour_minute day 3 minute)) (\<lambda>access_time.
     and_then (choice S FILE_TYPES) (\<lambda>file_type.
     let action = ''download'' in
     and_then (uniform S 10 150) (\<lambda>file_size.
     and_then (uuid4 S) (\<lambda>event_id.
     pure [(''event_id'', Str event_id),
           (''user_id'', Str user),
           (''file_type'', Str file_type),
           (''file_size_MB'', Num (py_round file_size 3)),
           (''access_time'', Time access_time),
           (''action'', Str action)])))))))))"

definition generate_generic_suspicious ::
  "('g, 'r, 'e) sources \<Rightarrow> int \<Rightarrow> datetime \<Rightarrow> string option \<Rightarrow> (frame, 'g, 'r, 'e) gen" where
  "generate_generic_suspicious S n start_date label_user =
     and_then (for_range (nat n) (generic_suspicious_event S start_date label_user))
       (\<lambda>rows. pure (DataFrame rows))"

definition generate_suspicious_events ::
  "('g, 'r, 'e) sources \<Rightarrow> int \<Rightarrow> datetime option \<Rightarrow> string option \<Rightarrow> string \<Rightarrow> datetime \<Rightarrow>
     (frame, 'g, 'r, 'e) gen" where
  "generate_suspicious_events S n start_date label_user pattern now =
     and_then
       (case start_date of
          None \<Rightarrow> and_then (lift (timedelta 1 0 0)) (\<lambda>td. lift (dt_minus now td))
        | Some d \<Rightarrow> pure d)
       (\<lambda>start_date.
          if pattern = ''mass_downloads''
          then generate_mass_downloads S n start_date label_user
          else generate_generic_suspicious S n start_date label_user)"

subsection \<open>Properties of a generated row\<close>

text \<open>
  \<open>size_in lo hi\<close>: the row has a numeric \<open>file_size_MB\<close> between the bounds.
  \<open>mass_download_row\<close>: the row is a download of the given user whose
  \<open>access_time\<close> is on the day of the start date, from 02:00 up to 05:00.
  \<open>mass_download_size\<close>: the size of a mass-download row lies in the range of its
  file type (50 to 300 for a database export, 5 to 50 for a PDF, 10 to 80 for any
  other type, Excel among them), and so between 5 and 300.
\<close>

definition size_in :: "real \<Rightarrow> real \<Rightarrow> (string \<Rightarrow> cell option) \<Rightarrow> bool" where
  "size_in lo hi r =
     (case r ''file_size_MB'' of Some (Num x) \<Rightarrow> lo \<le> x \<and> x \<le> hi | _ \<Rightarrow> False)"

definition in_off_hours_window :: "datetime \<Rightarrow> datetime \<Rightarrow> bool" where
  "in_off_hours_window start_date t =
     (dt_ordinal t = dt_ordinal start_date \<and> 2 \<le> dt_hour t \<and> dt_hour t < 5 \<and>
      0 \<le> dt_minute t \<and> dt_minute t < 60 \<and> dt_second t = 0 \<and> dt_microsecond t = 0)"

definition mass_download_row ::
  "datetime \<Rightarrow> string \<Rightarrow> (string \<Rightarrow> cell option) \<Rightarrow> bool" where
  "mass_download_row start_date u r =
     (r ''action'' = Some (Str ''download'') \<and> r ''user_id'' = Some (Str u) \<and>
      (case r ''access_time'' of
         Some (Time t) \<Rightarrow> in_off_hours_window start_date t
       | _ \<Rightarrow> False))"

text \<open>
  \<open>day_before now\<close>: the same time of day one day earlier, the start date that
  \<open>generate_suspicious_events\<close> takes when it is called without one.
  \<open>exponential_size S r\<close>: the \<open>file_size_MB\<close> of the row is a draw of
  \<open>np.random.exponential\<close>, at some state of the generator, with the scale of the
  row's file type, plus the offset of the type, times 1.3 when the row's action is
  \<open>download\<close>, clipped to 0.1 and 120 and rounded to three decimals.
\<close>

definition day_before :: "datetime \<Rightarrow> datetime" where
  "day_before now = now\<lparr>dt_ordinal := dt_ordinal now - 1\<rparr>"

definition exponential_size ::
  "('g, 'r, 'e) sources \<Rightarrow> (string \<Rightarrow> cell option) \<Rightarrow> bool" where
  "exponential_size S r =
     (\<exists>file_type action g.
        r ''file_type'' = Some (Str file_type) \<and> r ''action'' = Some (Str action) \<and>
        r ''file_size_MB'' =
          Some (Num (py_round
            (np_clip
               ((if file_type = ''Database export''
                 then fst (np_random_exponential S 15 g) + 10
                 else if file_type \<in> set [''Excel'', ''PPT'', ''Doc'']
                 then fst (np_random_exponential S 3 g) + 1
                 else if file_type \<in> set [''PDF'', ''CSV'']
                 then fst (np_random_exponential S 2 g) + 1 / 2
                 else fst (np_random_exponential S (3 / 2) g) + 1 / 5) *
                (if action = ''download'' then 13 / 10 else 1))
               (1 / 10) 120) 3)))"


subsection \<open>Two runs compared\<close>

text \<open>
  Two worlds \<open>agree\<close> when the seeded generators are in the same state; the entropy
  of the operating system is left free. Two computations are \<open>related\<close> when, from
  worlds that agree, both raise the same exception or both return, with results in the
  given relation and worlds that agree again. Two rows are the \<open>same_but_id\<close> when
  they have the same keys and the same entries apart from \<open>event_id\<close>, two frames
  \<open>frames_agree\<close> when they are equal once the column \<open>event_id\<close> is dropped.
  \<open>seeded_view\<close> is what a run shows of the seeded state: the exception, or the table
  without \<open>event_id\<close> and the states the two generators are left in.
\<close>

definition agree :: "('g, 'r, 'e) world \<Rightarrow> ('g, 'r, 'e) world \<Rightarrow> bool" where
  "agree w1 w2 = (np_state w1 = np_state w2 \<and> py_state w1 = py_state w2)"

definition rel_gen ::
  "('a \<Rightarrow> 'a \<Rightarrow> bool) \<Rightarrow> exn + 'a \<times> ('g, 'r, 'e) world \<Rightarrow> exn + 'a \<times> ('g, 'r, 'e) world \<Rightarrow> bool" where
  "rel_gen R x y =
     (case x of
        Inl e1 \<Rightarrow> (case y of Inl e2 \<Rightarrow> e1 = e2 | Inr _ \<Rightarrow> False)
      | Inr (a, w1) \<Rightarrow> (case y of Inl _ \<Rightarrow> False | Inr (b, w2) \<Rightarrow> R a b \<and> agree w1 w2))"

definition related ::
  "('a \<Rightarrow> 'a \<Rightarrow> bool) \<Rightarrow> ('a, 'g, 'r, 'e) gen \<Rightarrow> ('a, 'g, 'r, 'e) gen \<Rightarrow> bool" where
  "related R m1 m2 = (\<forall>w1 w2. agree w1 w2 \<longrightarrow> rel_gen R (m1 w1) (m2 w2))"

definition same_but_id :: "(string \<times> cell) list \<Rightarrow> (string \<times> cell) list \<Rightarrow> bool" where
  "same_but_id r1 r2 =
     (map fst r1 = map fst r2 \<and>
      filter (\<lambda>p. fst p \<noteq> ''event_id'') r1 = filter (\<lambda>p. fst p \<noteq> ''event_id'') r2)"

definition frames_agree :: "frame \<Rightarrow> frame \<Rightarrow> bool" where
  "frames_agree d1 d2 = (drop_column ''event_id'' d1 = drop_column ''event_id'' d2)"

definition event_ids :: "exn + frame \<times> ('g, 'r, 'e) world \<Rightarrow> exn + cell list" where
  "event_ids run = (case run of Inl e \<Rightarrow> Inl e | Inr (df, w) \<Rightarrow> column df ''event_id'')"

definition seeded_view ::
  "exn + frame \<times> ('g, 'r, 'e) world \<Rightarrow> exn + frame \<times> 'g \<times> 'r" where
  "seeded_view = map_sum id (\<lambda>(df, w). (drop_column ''event_id'' df, np_state w, py_state w))"

subsection \<open>A reference instance of the sources\<close>

text \<open>
  Counters in place of the generators, to run the definitions on concrete inputs: each
  draw is computed from the counter of its source and steps it.
\<close>

definition counter_sources :: "(nat, nat, nat) sources" where
  "counter_sources =
     \<lparr>np_random_randint = (\<lambda>lo hi g. (lo + int g mod (hi - lo), Suc g)),
      np_random_normal = (\<lambda>loc scale g. (loc + scale * (real g - 3), Suc g)),
      np_random_exponential = (\<lambda>scale g. (scale * real g, Suc g)),
      np_random_uniform = (\<lambda>lo hi g. (lo + (hi - lo) * (real (g mod 4) / 4), Suc g)),
      random_choices = (\<lambda>population weights r. (population ! (r mod length population), Suc r)),
      random_choice = (\<lambda>population r. (population ! (r mod length population), Suc r)),
      uuid_uuid4 = (\<lambda>e. (CHR ''u'' # digits e, Suc e))\<rparr>"

definition counters :: "nat \<Rightarrow> nat \<Rightarrow> nat \<Rightarrow> (nat, nat, nat) world" where
  "counters g r e = \<lparr>np_state = g, py_state = r, os_entropy = e\<rparr>"

definition day_2024_01_01 :: datetime where
  "day_2024_01_01 =
     \<lparr>dt_ordinal = 738886, dt_hour = 9, dt_minute = 30, dt_second = 15, dt_microsecond = 250\<rparr>"


definition normal_example :: frame where
  "normal_example =
     \<lparr>nrows = 2,
      cols =
        [(''event_id'', [Str ''u0'', Str ''u1'']),
         (''user_id'', [Str ''employee100'', Str ''employee105'']),
         (''file_type'', [Str ''PDF'', Str ''Database export'']),
         (''file_size_MB'', [Num (221 / 20), Num 120]),
         (''access_time'',
          [Time \<lparr>dt_ordinal = 738887, dt_hour = 19, dt_minute = 33, dt_second = 15,
                   dt_microsecond = 250\<rparr>,
           Time \<lparr>dt_ordinal = 738887, dt_hour = 4, dt_minute = 38, dt_second = 15,
                   dt_microsecond = 250\<rparr>]),
         (''action'', [Str ''download'', Str ''download''])],
      empty_datetime64 = []\<rparr>"

definition mass_example :: frame where
  "mass_example =
     \<lparr>nrows = 3,
      cols =
        [(''event_id'', [Str ''u0'', Str ''u1'', Str ''u2'']),
         (''user_id'', [Str ''employee901'', Str ''employee901'', Str ''employee901'']),
         (''file_type'', [Str ''Database export'', Str ''Excel'', Str ''PDF'']),
         (''file_size_MB'', [Num (475 / 2), Num (55 / 2), Num (155 / 4)]),
         (''access_time'',
          [Time \<lparr>dt_ordinal = 738886, dt_hour = 2, dt_minute = 2, dt_second = 0,
                   dt_microsecond = 0\<rparr>,
           Time \<lparr>dt_ordinal = 738886, dt_hour = 2, dt_minute = 4, dt_second = 0,
                   dt_microsecond = 0\<rparr>,
           Time \<lparr>dt_ordinal = 738886, dt_hour = 2, dt_minute = 6, dt_second = 0,
                   dt_microsecond = 0\<rparr>]),
         (''action'', [Str ''download'', Str ''download'', Str ''download''])],
      empty_datetime64 = []\<rparr>"


section \<open>ml_pipeline.py\<close>

subsection \<open>FeatureEngineer\<close>

text \<open>
  The \<open>.dt\<close> accessor of the column \<open>c\<close> raises \<open>AttributeError\<close> unless the
  dtype of the column is a datetime one: every cell is a datetime or, when the column has
  no cell, the frame says so. \<open>engineer_features\<close> reads \<open>access_time\<close> twice and
  the columns \<open>hour\<close> and \<open>dayofweek\<close> that it has just assigned; the model reads
  \<open>access_time\<close> once and keeps the two lists.
\<close>

fun datetimes :: "cell list \<Rightarrow> datetime list option" where
  "datetimes [] = Some []"
| "datetimes (Time t # vs) = map_option (Cons t) (datetimes vs)"
| "datetimes (_ # vs) = None"

definition not_datetimelike :: exn where
  "not_datetimelike = AttributeError ''Can only use .dt accessor with datetimelike values''"

definition dt_accessor :: "frame \<Rightarrow> string \<Rightarrow> cell list \<Rightarrow> exn + datetime list" where
  "dt_accessor df c vs =
     (if vs = [] then (if c \<in> set (empty_datetime64 df) then Inr [] else Inl not_datetimelike)
      else case datetimes vs of Some ts \<Rightarrow> Inr ts | None \<Rightarrow> Inl not_datetimelike)"

text \<open>
  The per-user aggregates of \<open>groupby("user_id").agg(...)\<close>. A group is the rows
  with the same \<open>user_id\<close>; rows whose key is \<open>NaN\<close> belong to no group and get
  \<open>NaN\<close> from the left merge. \<open>mean\<close>, \<open>std\<close> (sample standard deviation, one
  degree of freedom less) and \<open>count\<close> skip \<open>NaN\<close>; a column with a cell that is not
  a number makes the aggregation raise \<open>TypeError\<close>. Dividing the counts gives
  \<open>NaN\<close> for 0/0 and infinity for a positive count over 0.
\<close>

fun is_numeric :: "cell \<Rightarrow> bool" where
  "is_numeric (Num _) = True"
| "is_numeric NaN = True"
| "is_numeric PosInf = True"
| "is_numeric _ = False"

fun finite_values :: "cell list \<Rightarrow> real list" where
  "finite_values [] = []"
| "finite_values (Num x # vs) = x # finite_values vs"
| "finite_values (_ # vs) = finite_values vs"

definition group_of :: "cell list \<Rightarrow> 'a list \<Rightarrow> cell \<Rightarrow> 'a list" where
  "group_of keys vals k = map snd (filter (\<lambda>p. fst p = k) (zip keys vals))"

definition count_agg :: "cell list \<Rightarrow> nat" where
  "count_agg vs = length (filter (\<lambda>c. c \<noteq> NaN) vs)"

definition mean_agg :: "cell list \<Rightarrow> cell" where
  "mean_agg vs =
     (if count_agg vs = 0 then NaN
      else if PosInf \<in> set vs then PosInf
      else Num (sum_list (finite_values vs) / real (count_agg vs)))"

definition sample_std :: "real list \<Rightarrow> real" where
  "sample_std xs =
     (let m = sum_list xs / real (length xs)
      in sqrt (sum_list (map (\<lambda>x. (x - m)\<^sup>2) xs) / real (length xs - 1)))"

declare sample_std_def [code del]

definition std_agg :: "cell list \<Rightarrow> cell" where
  "std_agg vs =
     (if count_agg vs < 2 then NaN
      else if PosInf \<in> set vs then NaN
      else Num (sample_std (finite_values vs)))"

definition round_cell :: "cell \<Rightarrow> nat \<Rightarrow> cell" where
  "round_cell c nd = (case c of Num x \<Rightarrow> Num (py_round x nd) | _ \<Rightarrow> c)"

definition download_count_agg :: "cell list \<Rightarrow> nat" where
  "download_count_agg actions = length (filter (\<lambda>a. a = Str ''download'') actions)"

definition divide_counts :: "nat \<Rightarrow> nat \<Rightarrow> cell" where
  "divide_counts a b =
     (if b = 0 then (if a = 0 then NaN else PosInf) else Num (real a / real b))"

definition user_stats :: "cell list \<Rightarrow> cell list \<Rightarrow> cell list \<Rightarrow> (string \<times> cell list) list" where
  "user_stats users sizes actions =
     (let per_user = (\<lambda>f. map (\<lambda>k. if k = NaN then NaN else f k) users)
      in [(''avg_file_size'', per_user (\<lambda>k. round_cell (mean_agg (group_of users sizes k)) 3)),
          (''std_file_size'', per_user (\<lambda>k. round_cell (std_agg (group_of users sizes k)) 3)),
          (''total_access'', per_user (\<lambda>k. Num (real (count_agg (group_of users sizes k))))),
          (''download_count'',
           per_user (\<lambda>k. Num (real (download_count_agg (group_of users actions k))))),
          (''download_ratio'',
           per_user (\<lambda>k. divide_counts (download_count_agg (group_of users actions k))
                           (count_agg (group_of users sizes k))))])"

text \<open>
  \<open>df.merge(stats, left_on="user_id", right_index=True, how="left")\<close> appends the
  columns of the aggregates. A name that both sides have gets the suffix \<open>_x\<close> on the
  left and \<open>_y\<close> on the right, and pandas raises \<open>MergeError\<close> when that produces a
  name twice.
\<close>

definition merge_columns :: "frame \<Rightarrow> (string \<times> cell list) list \<Rightarrow> exn + frame" where
  "merge_columns df new =
     (let overlap = filter (\<lambda>c. c \<in> set (columns df)) (map fst new);
          left = map (\<lambda>p. (if fst p \<in> set overlap then fst p @ ''_x'' else fst p, snd p)) (cols df);
          right = map (\<lambda>p. (if fst p \<in> set overlap then fst p @ ''_y'' else fst p, snd p)) new
      in if distinct (map fst (left @ right)) then Inr (df\<lparr>cols := left @ right\<rparr>)
         else Inl (Raised ''MergeError''))"

definition file_risk_scores :: "(string \<times> real) list" where
  "file_risk_scores =
     [(''Database export'', 10), (''PDF'', 7), (''Excel'', 6), (''CSV'', 5), (''Doc'', 4),
      (''PPT'', 3), (''Image'', 2)]"

definition file_type_risk :: "cell \<Rightarrow> cell" where
  "file_type_risk c =
     (case c of
        Str s \<Rightarrow> (case map_of file_risk_scores s of Some v \<Rightarrow> Num v | None \<Rightarrow> NaN)
      | _ \<Rightarrow> NaN)"

definition greater_than :: "cell \<Rightarrow> real \<Rightarrow> bool" where
  "greater_than c y = (case c of Num x \<Rightarrow> y < x | PosInf \<Rightarrow> True | _ \<Rightarrow> False)"

definition size_risk_score :: "cell \<Rightarrow> cell" where
  "size_risk_score c =
     Num (if greater_than c 100 then 10
          else if greater_than c 50 then 7
          else if greater_than c 10 then 4 else 1)"

definition then_exn :: "exn + 'a \<Rightarrow> ('a \<Rightarrow> exn + 'b) \<Rightarrow> exn + 'b" where
  "then_exn r f = (case r of Inl e \<Rightarrow> Inl e | Inr a \<Rightarrow> f a)"

definition engineer_features :: "frame \<Rightarrow> exn + frame" where
  "engineer_features df =
     then_exn (column df ''access_time'') (\<lambda>access_time.
     then_exn (dt_accessor df ''access_time'' access_time) (\<lambda>ts.
     let hour = map dt_hour ts;
         df1 = assign df ''hour'' (map (\<lambda>h. Num (of_int h)) hour);
         dayofweek = map weekday ts;
         df2 = assign df1 ''dayofweek'' (map (\<lambda>d. Num (of_int d)) dayofweek);
         df3 = assign df2 ''is_weekend''
                 (map (\<lambda>d. Num (if d \<in> set [5, 6] then 1 else 0)) dayofweek);
         df4 = assign df3 ''is_after_hours''
                 (map (\<lambda>h. Num (if h < 8 \<or> h > 19 then 1 else 0)) hour)
     in
     then_exn (column df4 ''user_id'') (\<lambda>users.
     then_exn
       (case filter (\<lambda>c. c \<notin> set (columns df4)) [''action'', ''file_size_MB''] of
          [] \<Rightarrow> Inr ()
        | m # ms \<Rightarrow> Inl (KeyError (m # ms))) (\<lambda>_.
     then_exn (column df4 ''file_size_MB'') (\<lambda>sizes.
     then_exn (column df4 ''action'') (\<lambda>actions.
     then_exn
       (if list_all is_numeric sizes then Inr ()
        else Inl (TypeError ''agg function failed [how->mean,dtype->object]'')) (\<lambda>_.
     then_exn (merge_columns df4 (user_stats users sizes actions)) (\<lambda>df5.
     then_exn (column df5 ''file_type'') (\<lambda>file_type.
     let df6 = assign df5 ''file_type_risk'' (map file_type_risk file_type) in
     then_exn (column df6 ''file_size_MB'') (\<lambda>file_size_MB.
     let df7 = assign df6 ''is_large_file''
                 (map (\<lambda>c. Num (if greater_than c 50 then 1 else 0)) file_size_MB);
         df8 = assign df7 ''size_risk_score'' (map size_risk_score file_size_MB)
     in Inr df8))))))))))"

subsection \<open>The scikit-learn pipeline\<close>

text \<open>
  The pipeline object is scikit-learn's. Its states are a type \<open>'p\<close> and its
  operations are parameters: the constructor from the settings that
  \<open>build_pipeline\<close> passes, \<open>fit\<close>, which changes the object in place and may
  raise, the \<open>transform\<close> of the step \<open>prep\<close> into a matrix of a type \<open>'x\<close>, and
  \<open>score_samples\<close> and \<open>predict\<close> of the step \<open>model\<close>. What an unfitted object
  does is for the library to say.
\<close>

record pipeline_params =
  cat_features :: "string list"
  num_features :: "string list"
  handle_unknown :: string
  sparse_output :: bool
  iforest_n_estimators :: int
  iforest_max_samples :: string
  iforest_contamination :: real
  iforest_random_state :: int
  iforest_n_jobs :: int

record ('p, 'x) sklearn =
  new_pipeline :: "pipeline_params \<Rightarrow> 'p"
  pipeline_fit :: "'p \<Rightarrow> frame \<Rightarrow> exn option \<times> 'p"
  prep_transform :: "'p \<Rightarrow> frame \<Rightarrow> exn + 'x"
  model_score_samples :: "'p \<Rightarrow> 'x \<Rightarrow> exn + real list"
  model_predict :: "'p \<Rightarrow> 'x \<Rightarrow> exn + int list"

subsection \<open>AnomalyDetector\<close>

datatype log_record =
    LogInfo string
  | LogWarning string "string set"
  | LogError string exn

record 'p detector =
  contamination :: real
  n_estimators :: int
  pipeline :: "'p option"
  feature_columns :: "string list option"
  model_path :: string

definition MODELS_DIR :: string where
  "MODELS_DIR = ''models''"

definition AnomalyDetector :: "real \<Rightarrow> int \<Rightarrow> 'p detector" where
  "AnomalyDetector c n =
     \<lparr>contamination = c, n_estimators = n, pipeline = None, feature_columns = None,
      model_path = MODELS_DIR @ ''/isolation_forest_model.pkl''\<rparr>"

definition build_pipeline :: "('p, 'x) sklearn \<Rightarrow> 'p detector \<Rightarrow> 'p" where
  "build_pipeline sk self =
     new_pipeline sk
       \<lparr>cat_features = [''file_type'', ''action'', ''user_id''],
        num_features =
          [''file_size_MB'', ''hour'', ''dayofweek'', ''is_weekend'', ''is_after_hours'',
           ''file_type_risk'', ''is_large_file'', ''size_risk_score'', ''avg_file_size'',
           ''std_file_size'', ''download_ratio''],
        handle_unknown = ''ignore'',
        sparse_output = False,
        iforest_n_estimators = n_estimators self,
        iforest_max_samples = ''auto'',
        iforest_contamination = contamination self,
        iforest_random_state = RANDOM_SEED,
        iforest_n_jobs = - 1\<rparr>"

text \<open>
  \<open>raw = -scores; risk = (raw - raw.min()) / (raw.max() - raw.min() + 1e-9) * 100.0\<close>.
  The minimum of an array with no element raises \<open>ValueError\<close>.
\<close>

definition risk_scores :: "real list \<Rightarrow> exn + real list" where
  "risk_scores scores =
     (if scores = []
      then Inl (ValueError ''zero-size array to reduction operation minimum which has no identity'')
      else let raw = map uminus scores
           in Inr (map (\<lambda>x. (x - Min (set raw)) / (Max (set raw) - Min (set raw) + 1 / 1000000000)
                            * 100) raw))"

text \<open>
  A method returns what it returns or raises, the detector as the call leaves it, and
  the records it logged. \<open>fit_and_score\<close> assigns \<open>self.pipeline\<close> before fitting, so
  a fit that raises leaves the new pipeline in the detector.
\<close>

definition fit_and_score ::
  "('p, 'x) sklearn \<Rightarrow> 'p detector \<Rightarrow> frame \<Rightarrow>
     (exn + 'p \<times> frame) \<times> 'p detector \<times> log_record list" where
  "fit_and_score sk self df =
     (let log0 = [LogInfo ''Starting model training and scoring''] in
      case engineer_features df of
        Inl e \<Rightarrow> (Inl e, self, log0)
      | Inr df_feat \<Rightarrow>
          (case pipeline_fit sk (build_pipeline sk self) df_feat of
             (Some e, p) \<Rightarrow> (Inl e, self\<lparr>pipeline := Some p\<rparr>, log0)
           | (None, p) \<Rightarrow>
               let self' = self\<lparr>pipeline := Some p, feature_columns := Some (columns df_feat)\<rparr>
               in case
                    then_exn (prep_transform sk p df_feat) (\<lambda>X.
                    then_exn (model_score_samples sk p X) (\<lambda>scores.
                    then_exn (risk_scores scores) (\<lambda>risk.
                    then_exn (prep_transform sk p df_feat) (\<lambda>X'.
                    then_exn (model_predict sk p X') (\<lambda>preds.
                    then_exn (set_column df ''risk_score''
                                (map (\<lambda>x. Num (py_round x 2)) risk)) (\<lambda>s1.
                    then_exn (set_column s1 ''anomaly_flag''
                                (map (\<lambda>y. Bool (y = - 1)) preds)) (\<lambda>s2.
                    then_exn (column df_feat ''hour'') (\<lambda>hour.
                    then_exn (column df_feat ''dayofweek'') (\<lambda>dayofweek.
                    then_exn (column df_feat ''is_weekend'') (\<lambda>is_weekend.
                    then_exn (column df_feat ''is_after_hours'') (\<lambda>is_after_hours.
                    Inr (assign (assign (assign (assign s2 ''hour'' hour)
                           ''dayofweek'' dayofweek) ''is_weekend'' is_weekend)
                           ''is_after_hours'' is_after_hours))))))))))))
                  of
                    Inl e \<Rightarrow> (Inl e, self', log0)
                  | Inr df_scored \<Rightarrow>
                      (Inr (p, df_scored), self',
                       log0 @
                       [LogInfo (''Model training completed. Detected '' @
                          py_str (int (length (filter (\<lambda>c. c = Bool True)
                             (case column df_scored ''anomaly_flag'' of
                                Inr flags \<Rightarrow> flags | Inl _ \<Rightarrow> [])))) @
                          '' anomalies'')])))"

text \<open>
  \<open>predict_new_data\<close> does not assign to the detector. The missing features are a
  set; they are filled in the order of \<open>feature_columns\<close>, and the selection that
  follows puts the columns in that order whatever the order of filling.
\<close>

definition predict_new_data ::
  "('p, 'x) sklearn \<Rightarrow> 'p detector \<Rightarrow> frame \<Rightarrow> (exn + frame) \<times> log_record list" where
  "predict_new_data sk self df =
     (case pipeline self of
        None \<Rightarrow> (Inl (ValueError ''Model must be fitted before making predictions''), [])
      | Some p \<Rightarrow>
          (case engineer_features df of
             Inl e \<Rightarrow> (Inl e, [])
           | Inr df_feat \<Rightarrow>
               (case feature_columns self of
                  None \<Rightarrow> (Inl (TypeError ''NoneType object is not iterable''), [])
                | Some fc \<Rightarrow>
                    let missing_features = remdups (filter (\<lambda>c. c \<notin> set (columns df_feat)) fc);
                        logged = (if missing_features = [] then []
                               else [LogWarning ''Missing features: '' (set missing_features)]);
                        df_feat' = fold (\<lambda>feature d. set_scalar d feature (Num 0))
                                     missing_features df_feat
                    in (then_exn (select df_feat' fc) (\<lambda>df_feat''.
                        then_exn (prep_transform sk p df_feat'') (\<lambda>X.
                        then_exn (model_score_samples sk p X) (\<lambda>scores.
                        then_exn (risk_scores scores) (\<lambda>risk.
                        then_exn (prep_transform sk p df_feat'') (\<lambda>X'.
                        then_exn (model_predict sk p X') (\<lambda>preds.
                        then_exn (set_column df ''risk_score''
                                    (map (\<lambda>x. Num (py_round x 2)) risk)) (\<lambda>s1.
                        set_column s1 ''anomaly_flag''
                          (map (\<lambda>y. Bool (y = - 1)) preds)))))))),
                        logged))))"

subsection \<open>Persistence\<close>

text \<open>
  \<open>joblib\<close> is a parameter: \<open>dump\<close> turns the dict into the content of a file (of a
  type \<open>'f\<close>) or raises, \<open>load\<close> reads a content back or raises. The dict is kept by
  its four keys, \<open>None\<close> for a key the loaded dict lacks; the value of
  \<open>feature_columns\<close> may itself be \<open>None\<close>. The file system maps a path to the
  content of the file there.
\<close>

record 'p model_data =
  md_pipeline :: "'p option option"
  md_feature_columns :: "string list option option"
  md_contamination :: "real option"
  md_n_estimators :: "int option"

record ('p, 'f) joblib =
  joblib_dump :: "'p model_data \<Rightarrow> exn + 'f"
  joblib_load :: "'f \<Rightarrow> exn + 'p model_data"

type_synonym 'f filesystem = "string \<Rightarrow> 'f option"

definition joblib_round_trip :: "('p, 'f) joblib \<Rightarrow> bool" where
  "joblib_round_trip jl = (\<forall>md c. joblib_dump jl md = Inr c \<longrightarrow> joblib_load jl c = Inr md)"

definition save_model ::
  "('p, 'f) joblib \<Rightarrow> 'p detector \<Rightarrow> 'f filesystem \<Rightarrow>
     (exn + unit) \<times> 'f filesystem \<times> log_record list" where
  "save_model jl self fs =
     (case pipeline self of
        None \<Rightarrow> (Inl (ValueError ''No model to save''), fs, [])
      | Some p \<Rightarrow>
          (case joblib_dump jl
                  \<lparr>md_pipeline = Some (pipeline self),
                   md_feature_columns = Some (feature_columns self),
                   md_contamination = Some (contamination self),
                   md_n_estimators = Some (n_estimators self)\<rparr> of
             Inl e \<Rightarrow> (Inl e, fs, [])
           | Inr content \<Rightarrow>
               (Inr (), fs(model_path self \<mapsto> content),
                [LogInfo (''Model saved to '' @ model_path self)])))"

text \<open>
  The body of the \<open>try\<close> of \<open>load_model\<close>: it returns \<open>True\<close>, raises, or falls
  through (\<open>None\<close>) when the file does not exist. A key the dict lacks raises
  \<open>KeyError\<close> after the assignments before it. The handler logs the exception, and
  the method then returns \<open>False\<close>.
\<close>

definition load_model_try ::
  "('p, 'f) joblib \<Rightarrow> 'p detector \<Rightarrow> 'f filesystem \<Rightarrow>
     (exn + bool option) \<times> 'p detector \<times> log_record list" where
  "load_model_try jl self fs =
     (case fs (model_path self) of
        None \<Rightarrow> (Inr None, self, [])
      | Some content \<Rightarrow>
          (case joblib_load jl content of
             Inl e \<Rightarrow> (Inl e, self, [])
           | Inr model_data \<Rightarrow>
               (case md_pipeline model_data of
                  None \<Rightarrow> (Inl (KeyError [''pipeline'']), self, [])
                | Some p \<Rightarrow>
                    let self1 = self\<lparr>pipeline := p\<rparr> in
                    (case md_feature_columns model_data of
                       None \<Rightarrow> (Inl (KeyError [''feature_columns'']), self1, [])
                     | Some fc \<Rightarrow>
                         let self2 = self1\<lparr>feature_columns := fc\<rparr> in
                         (case md_contamination model_data of
                            None \<Rightarrow> (Inl (KeyError [''contamination'']), self2, [])
                          | Some c \<Rightarrow>
                              let self3 = self2\<lparr>contamination := c\<rparr> in
                              (case md_n_estimators model_data of
                                 None \<Rightarrow> (Inl (KeyError [''n_estimators'']), self3, [])
                               | Some n \<Rightarrow>
                                   (Inr (Some True), self3\<lparr>n_estimators := n\<rparr>,
                                    [LogInfo (''Model loaded from '' @ model_path self)])))))))"

definition load_model ::
  "('p, 'f) joblib \<Rightarrow> 'p detector \<Rightarrow> 'f filesystem \<Rightarrow>
     (exn + bool) \<times> 'p detector \<times> log_record list" where
  "load_model jl self fs =
     (case load_model_try jl self fs of
        (Inl e, self', logged) \<Rightarrow>
          (Inr False, self', logged @ [LogError ''Failed to load model: '' e])
      | (Inr (Some b), self', logged) \<Rightarrow> (Inr b, self', logged)
      | (Inr None, self', logged) \<Rightarrow> (Inr False, self', logged))"

subsection \<open>Properties of a scored table\<close>

text \<open>
  \<open>scored_frame\<close> is the copy of the batch with the columns \<open>risk_score\<close> (rounded
  to two decimals) and \<open>anomaly_flag\<close> (\<open>preds == -1\<close>) that both methods build.
  \<open>risk_in_range\<close>: the row has a numeric \<open>risk_score\<close> from 0 to 100.
\<close>

definition scored_frame :: "frame \<Rightarrow> real list \<Rightarrow> int list \<Rightarrow> frame" where
  "scored_frame df risk preds =
     assign (assign df ''risk_score'' (map (\<lambda>x. Num (py_round x 2)) risk))
       ''anomaly_flag'' (map (\<lambda>y. Bool (y = - 1)) preds)"


text \<open>
  \<open>filled_with_zero F df_feat fc\<close>: the table \<open>F\<close> has the columns \<open>fc\<close> in that
  order and the rows of \<open>df_feat\<close>; a column of \<open>fc\<close> that \<open>df_feat\<close> has is
  the one of \<open>df_feat\<close>, and one that it lacks is 0 in every row.
\<close>

definition filled_with_zero :: "frame \<Rightarrow> frame \<Rightarrow> string list \<Rightarrow> bool" where
  "filled_with_zero F df_feat fc =
     (columns F = fc \<and> nrows F = nrows df_feat \<and>
      list_all (\<lambda>c. column F c =
                 (if c \<in> set (columns df_feat) then column df_feat c
                  else Inr (replicate (nrows df_feat) (Num 0)))) fc)"

text \<open>
  \<open>four_keys\<close>: the loaded dict has the four keys that \<open>load_model\<close> reads.
\<close>

definition four_keys :: "'p model_data \<Rightarrow> bool" where
  "four_keys md =
     (md_pipeline md \<noteq> None \<and> md_feature_columns md \<noteq> None \<and>
      md_contamination md \<noteq> None \<and> md_n_estimators md \<noteq> None)"

subsection \<open>Reference instances of the libraries\<close>

text \<open>
  A pipeline that is its settings and, once fitted, a threshold on \<open>file_size_MB\<close>:
  fitting needs the column and at least one row, the matrix is the column, the score of
  a row falls with its size, and a row is an outlier above the threshold. And a
  \<open>joblib\<close> whose file content is the dict itself, or nothing that can be read.
\<close>

definition threshold_sklearn :: "(pipeline_params \<times> real option, real list) sklearn" where
  "threshold_sklearn =
     \<lparr>new_pipeline = (\<lambda>ps. (ps, None)),
      pipeline_fit =
        (\<lambda>p X. case column X ''file_size_MB'' of
                  Inl e \<Rightarrow> (Some e, p)
                | Inr vs \<Rightarrow>
                    if vs = [] then (Some (ValueError ''Found array with 0 sample(s)''), p)
                    else (None, (fst p, Some 50))),
      prep_transform =
        (\<lambda>p X. case snd p of
                  None \<Rightarrow> Inl (Raised ''NotFittedError'')
                | Some _ \<Rightarrow> then_exn (column X ''file_size_MB'') (\<lambda>vs. Inr (finite_values vs))),
      model_score_samples = (\<lambda>p xs. Inr (map (\<lambda>x. - x / 100) xs)),
      model_predict =
        (\<lambda>p xs. case snd p of
                   None \<Rightarrow> Inl (Raised ''NotFittedError'')
                 | Some t \<Rightarrow> Inr (map (\<lambda>x. if t < x then - 1 else 1) xs))\<rparr>"

definition option_joblib :: "('p, 'p model_data option) joblib" where
  "option_joblib =
     \<lparr>joblib_dump = (\<lambda>md. Inr (Some md)),
      joblib_load =
        (\<lambda>c. case c of None \<Rightarrow> Inl (Raised ''UnpicklingError'') | Some md \<Rightarrow> Inr md)\<rparr>"



definition fitted_pipeline :: "pipeline_params \<times> real option" where
  "fitted_pipeline =
     (fst (build_pipeline threshold_sklearn (AnomalyDetector (2 / 100) 300)), Some 50)"

definition fit_time_columns :: "string list" where
  "fit_time_columns =
     [''event_id'', ''user_id'', ''file_type'', ''file_size_MB'', ''access_time'', ''action'',
      ''hour'', ''dayofweek'', ''is_weekend'', ''is_after_hours'', ''avg_file_size'',
      ''std_file_size'', ''total_access'', ''download_count'', ''download_ratio'',
      ''file_type_risk'', ''is_large_file'', ''size_risk_score'']"

definition fitted_detector :: "(pipeline_params \<times> real option) detector" where
  "fitted_detector =
     (AnomalyDetector (2 / 100) 300)
       \<lparr>pipeline := Some fitted_pipeline,
        feature_columns := Some fit_time_columns\<rparr>"

definition features_without_id :: frame where
  "features_without_id =
     \<lparr>nrows = 2,
      cols = cols (drop_column ''event_id'' normal_example) @
        [(''hour'', [Num 19, Num 4]), (''dayofweek'', [Num 1, Num 1]),
         (''is_weekend'', [Num 0, Num 0]), (''is_after_hours'', [Num 0, Num 1]),
         (''avg_file_size'', [Num (221 / 20), Num 120]),
         (''std_file_size'', [NaN, NaN]),
         (''total_access'', [Num 1, Num 1]), (''download_count'', [Num 1, Num 1]),
         (''download_ratio'', [Num 1, Num 1]),
         (''file_type_risk'', [Num 7, Num 10]),
         (''is_large_file'', [Num 0, Num 1]),
         (''size_risk_score'', [Num 4, Num 10])],
      empty_datetime64 = []\<rparr>"

definition rescored_without_id :: frame where
  "rescored_without_id =
     \<lparr>nrows = 2,
      cols = cols (drop_column ''event_id'' normal_example) @
        [(''risk_score'', [Num 0, Num 100]), (''anomaly_flag'', [Bool False, Bool True])],
      empty_datetime64 = []\<rparr>"

text \<open>
  Three batches with no rows: \<open>pd.DataFrame([])\<close> has no column either;
  \<open>empty_object_events\<close> is \<open>pd.DataFrame(columns=names)\<close> for the six columns of
  an event, all of dtype \<open>object\<close>; \<open>empty_events\<close> is \<open>df.iloc[0:0]\<close> of a
  table of events, whose \<open>access_time\<close> keeps the dtype \<open>datetime64[ns]\<close>.
  \<open>empty_features\<close> is the table of features with no rows.
\<close>

definition empty_object_events :: frame where
  "empty_object_events =
     \<lparr>nrows = 0, cols = map (\<lambda>c. (c, [])) event_columns, empty_datetime64 = []\<rparr>"

definition empty_events :: frame where
  "empty_events =
     \<lparr>nrows = 0, cols = map (\<lambda>c. (c, [])) event_columns,
      empty_datetime64 = [''access_time'']\<rparr>"

definition empty_features :: frame where
  "empty_features =
     \<lparr>nrows = 0, cols = map (\<lambda>c. (c, [])) fit_time_columns,
      empty_datetime64 = [''access_time'']\<rparr>"

text \<open>
  A detector that was never fitted, a second one with other hyperparameters, a file
  system whose model file cannot be read, and the one \<open>save_model\<close> leaves for the
  fitted detector.
\<close>

definition fresh_detector :: "(pipeline_params \<times> real option) detector" where
  "fresh_detector = AnomalyDetector (2 / 100) 300"

definition other_detector :: "(pipeline_params \<times> real option) detector" where
  "other_detector = AnomalyDetector (5 / 100) 10"

definition corrupt_store :: "(pipeline_params \<times> real option) model_data option filesystem" where
  "corrupt_store = Map.empty(''models/isolation_forest_model.pkl'' \<mapsto> None)"

definition saved_store :: "(pipeline_params \<times> real option) model_data option filesystem" where
  "saved_store =
     Map.empty(''models/isolation_forest_model.pkl'' \<mapsto>
       Some \<lparr>md_pipeline = Some (Some fitted_pipeline),
             md_feature_columns = Some (Some fit_time_columns),
             md_contamination = Some (2 / 100),
             md_n_estimators = Some 300\<rparr>)"

section \<open>Proofs: tables, rounding and the generator loop\<close>

lemma round_half_even_ge: "of_int a \<le> x \<Longrightarrow> a \<le> round_half_even x"
proof -
  assume "of_int a \<le> x"
  then have "a \<le> \<lfloor>x\<rfloor>" by (simp add: le_floor_iff)
  then show ?thesis by (simp add: round_half_even_def Let_def)
qed

lemma round_half_even_le: "x \<le> of_int b \<Longrightarrow> round_half_even x \<le> b"
proof -
  assume h: "x \<le> of_int b"
  have f: "\<lfloor>x\<rfloor> \<le> b" using h by (simp add: floor_le_iff)
  show ?thesis
  proof (cases "x - of_int \<lfloor>x\<rfloor> < 1 / 2")
    case True
    then show ?thesis using f by (simp add: round_half_even_def Let_def)
  next
    case False
    then have "of_int \<lfloor>x\<rfloor> < x" by simp
    then have "of_int \<lfloor>x\<rfloor> < (of_int b :: real)" using h by linarith
    then have "\<lfloor>x\<rfloor> < b" by simp
    then show ?thesis by (simp add: round_half_even_def Let_def)
  qed
qed

lemma py_round_ge: "of_int a / 10 ^ nd \<le> x \<Longrightarrow> of_int a / 10 ^ nd \<le> py_round x nd"
proof -
  assume "of_int a / 10 ^ nd \<le> x"
  then have "of_int a \<le> x * 10 ^ nd" by (simp add: pos_divide_le_eq)
  then have "a \<le> round_half_even (x * 10 ^ nd)" by (rule round_half_even_ge)
  then have "(of_int a :: real) \<le> of_int (round_half_even (x * 10 ^ nd))" by simp
  then show ?thesis unfolding py_round_def by (simp add: divide_right_mono)
qed

lemma py_round_le: "x \<le> of_int b / 10 ^ nd \<Longrightarrow> py_round x nd \<le> of_int b / 10 ^ nd"
proof -
  assume "x \<le> of_int b / 10 ^ nd"
  then have "x * 10 ^ nd \<le> of_int b" by (simp add: pos_le_divide_eq)
  then have "round_half_even (x * 10 ^ nd) \<le> b" by (rule round_half_even_le)
  then have "(of_int (round_half_even (x * 10 ^ nd)) :: real) \<le> of_int b" by simp
  then show ?thesis unfolding py_round_def by (simp add: divide_right_mono)
qed

lemma py_round_between:
  "of_int a / 10 ^ nd \<le> x \<Longrightarrow> x \<le> of_int b / 10 ^ nd \<Longrightarrow>
   of_int a / 10 ^ nd \<le> py_round x nd \<and> py_round x nd \<le> of_int b / 10 ^ nd"
  by (simp add: py_round_ge py_round_le)

lemma and_then_Inr:
  "and_then m f w = Inr (b, w') \<Longrightarrow> \<exists>a w1. m w = Inr (a, w1) \<and> f a w1 = Inr (b, w')"
  by (auto simp: and_then_def split: sum.splits)

lemma and_then_step: "m w = Inr (a, w1) \<Longrightarrow> and_then m f w = f a w1"
  by (simp add: and_then_def)

lemma pure_Inr: "pure a w = Inr (b, w') \<Longrightarrow> b = a \<and> w' = w"
  by (simp add: pure_def)

lemma lift_Inr: "lift r w = Inr (a, w') \<Longrightarrow> r = Inr a \<and> w' = w"
  by (auto simp: lift_def split: sum.splits)

lemma for_range_list_all:
  assumes body: "\<And>w r w'. body w = Inr (r, w') \<Longrightarrow> P r"
  shows "for_range k body w = Inr (rs, w') \<Longrightarrow> list_all P rs"
proof (induction k arbitrary: w rs w')
  case 0
  then show ?case by (simp add: pure_def)
next
  case (Suc k)
  from Suc.prems obtain r w1 rs' where r: "body w = Inr (r, w1)"
    and rest: "for_range k body w1 = Inr (rs', w')" and rs: "rs = r # rs'"
    by (auto dest!: and_then_Inr pure_Inr)
  from body [OF r] Suc.IH [OF rest] rs show ?case by simp
qed

lemma for_range_length: "for_range k body w = Inr (rs, w') \<Longrightarrow> length rs = k"
proof (induction k arbitrary: w rs w')
  case 0
  then show ?case by (simp add: pure_def)
next
  case (Suc k)
  then show ?case by (auto dest!: and_then_Inr pure_Inr)
qed

lemma for_range_total:
  assumes body: "\<And>w. \<exists>r w'. body w = Inr (r, w')"
  shows "\<exists>rs w'. for_range k body w = Inr (rs, w')"
proof (induction k arbitrary: w)
  case 0
  show ?case by (simp add: pure_def)
next
  case (Suc k)
  from body obtain r w1 where r: "body w = Inr (r, w1)" by blast
  from Suc.IH obtain rs w2 where rs: "for_range k body w1 = Inr (rs, w2)" by blast
  show ?case using r rs by (simp add: and_then_def pure_def)
qed

lemma first_seen_prefix:
  "distinct ks \<Longrightarrow> set xs \<subseteq> set ks \<Longrightarrow> first_seen (ks @ xs) = ks"
proof -
  assume d: "distinct ks" and s: "set xs \<subseteq> set ks"
  have "filter (\<lambda>x. x \<notin> set (rev ks)) (rev xs) = []" using s by (auto simp: filter_empty_conv)
  then have "remdups (rev xs @ rev ks) = remdups (rev ks)"
    using s remdups_append [of "rev xs" "rev ks"] by simp
  then show ?thesis using d by (simp add: first_seen_def distinct_remdups_id)
qed

lemma first_seen_uniform:
  assumes "distinct ks" "rs \<noteq> []" "list_all (\<lambda>r. map fst r = ks) rs"
  shows "first_seen (concat (map (map fst) rs)) = ks"
proof -
  from assms obtain r rs' where rs: "rs = r # rs'" by (cases rs) auto
  with assms have "map fst r = ks" and "set (concat (map (map fst) rs')) \<subseteq> set ks"
    by (auto simp: list_all_iff)
  then show ?thesis using assms(1) by (simp add: rs first_seen_prefix)
qed

lemma map_of_tabulate:
  "map_of (map (\<lambda>k. (k, f k)) ks) c = (if c \<in> set ks then Some (f c) else None)"
  by (induction ks) auto

lemma nrows_DataFrame: "nrows (DataFrame rs) = length rs"
  by (simp add: DataFrame_def)

lemma frame_rows_DataFrame:
  assumes d: "distinct ks" and u: "list_all (\<lambda>r. map fst r = ks) rs"
  shows "frame_rows (DataFrame rs) = map map_of rs"
proof (cases "rs = []")
  case True
  then show ?thesis by (simp add: frame_rows_def DataFrame_def)
next
  case False
  have keys: "first_seen (concat (map (map fst) rs)) = ks"
    using first_seen_uniform [OF d False u] .
  have "row_at (DataFrame rs) i = map_of (rs ! i)" if i: "i < length rs" for i
  proof
    fix c
    from u i have fst: "map fst (rs ! i) = ks" by (simp add: list_all_length)
    show "row_at (DataFrame rs) i c = map_of (rs ! i) c"
    proof (cases "c \<in> set ks")
      case True
      with fst obtain v where "map_of (rs ! i) c = Some v"
        by (metis (no_types) list.set_map map_of_eq_None_iff not_Some_eq)
      then show ?thesis using True i
        by (simp add: row_at_def DataFrame_def keys map_of_tabulate)
    next
      case False
      with fst have "map_of (rs ! i) c = None"
        by (metis list.set_map map_of_eq_None_iff)
      then show ?thesis using False
        by (simp add: row_at_def DataFrame_def keys map_of_tabulate)
    qed
  qed
  then have "map (row_at (DataFrame rs)) [0..<length rs] = map map_of rs"
    by (intro nth_equalityI) simp_all
  then show ?thesis by (simp add: frame_rows_def nrows_DataFrame)
qed

lemma DataFrame_rows_all:
  assumes "distinct ks" and "list_all (\<lambda>r. map fst r = ks \<and> P (map_of r)) rs"
  shows "list_all P (frame_rows (DataFrame rs))"
proof -
  from assms(2) have u: "list_all (\<lambda>r. map fst r = ks) rs"
    and p: "list_all (\<lambda>r. P (map_of r)) rs"
    by (simp_all add: list_all_iff)
  show ?thesis using p by (simp add: frame_rows_DataFrame [OF assms(1) u] list_all_iff)
qed

lemma distinct_event_columns: "distinct event_columns"
  by (simp add: event_columns_def)

section \<open>Proofs: data_generator.py\<close>

subsection \<open>Sizes of normal events\<close>

lemma generate_file_size_range:
  "generate_file_size S ft a w = Inr (x, w') \<Longrightarrow> 1 / 10 \<le> x \<and> x \<le> 120"
  by (auto simp: generate_file_size_def np_clip_def Let_def dest!: and_then_Inr pure_Inr)

lemma py_round3_size:
  "1 / 10 \<le> x \<Longrightarrow> x \<le> 120 \<Longrightarrow> 1 / 10 \<le> py_round x 3 \<and> py_round x 3 \<le> 120"
  using py_round_between [of 100 3 x 120000] by simp

lemma normal_event_row:
  assumes "normal_event S sd days w = Inr (r, w')"
  shows "map fst r = event_columns \<and> size_in (1 / 10) 120 (map_of r)"
proof -
  from assms obtain x where x: "1 / 10 \<le> x \<and> x \<le> 120"
    and "map fst r = event_columns"
    and "map_of r ''file_size_MB'' = Some (Num (py_round x 3))"
    unfolding normal_event_def Let_def
    by (auto simp: event_columns_def dest!: and_then_Inr pure_Inr generate_file_size_range)
  then show ?thesis using py_round3_size [of x] by (simp add: size_in_def)
qed

lemma generate_file_size_draw:
  assumes "generate_file_size S ft a w = Inr (x, w')"
  shows "x = np_clip
               ((if ft = ''Database export''
                 then fst (np_random_exponential S 15 (np_state w)) + 10
                 else if ft \<in> set [''Excel'', ''PPT'', ''Doc'']
                 then fst (np_random_exponential S 3 (np_state w)) + 1
                 else if ft \<in> set [''PDF'', ''CSV'']
                 then fst (np_random_exponential S 2 (np_state w)) + 1 / 2
                 else fst (np_random_exponential S (3 / 2) (np_state w)) + 1 / 5) *
                (if a = ''download'' then 13 / 10 else 1))
               (1 / 10) 120"
  using assms
  by (auto simp: generate_file_size_def exponential_def and_then_def pure_def Let_def
      split: if_splits prod.splits)

lemma normal_event_shape:
  assumes run: "normal_event S sd days w = Inr (r, w')"
  shows "\<exists>eid user ft a t x w1 w2.
     generate_file_size S ft a w1 = Inr (x, w2) \<and>
     r = [(''event_id'', Str eid), (''user_id'', Str user), (''file_type'', Str ft),
          (''file_size_MB'', Num (py_round x 3)), (''access_time'', Time t),
          (''action'', Str a)]"
  using run unfolding normal_event_def Let_def
  apply -
  apply (drule and_then_Inr, elim exE conjE)+
  apply (drule pure_Inr)
  apply blast
  done

lemma normal_event_drawn:
  assumes "normal_event S sd days w = Inr (r, w')"
  shows "map fst r = event_columns \<and> exponential_size S (map_of r)"
proof -
  from normal_event_shape [OF assms] obtain eid user ft a t x w1 w2
    where x: "generate_file_size S ft a w1 = Inr (x, w2)"
      and r: "r = [(''event_id'', Str eid), (''user_id'', Str user), (''file_type'', Str ft),
          (''file_size_MB'', Num (py_round x 3)), (''access_time'', Time t),
          (''action'', Str a)]"
    by blast
  have cols: "map fst r = event_columns" by (simp add: r event_columns_def)
  have "map_of r ''file_type'' = Some (Str ft)" "map_of r ''action'' = Some (Str a)"
    "map_of r ''file_size_MB'' = Some (Num (py_round x 3))"
    by (simp_all add: r)
  then have "exponential_size S (map_of r)"
    unfolding exponential_size_def generate_file_size_draw [OF x]
    by (intro exI [of _ ft] exI [of _ a] exI [of _ "np_state w1"]) simp
  with cols show ?thesis by simp
qed

text \<open>
  C9. Whatever the generators draw, every row of the table that
  \<open>generate_normal_events\<close> returns has a \<open>file_size_MB\<close> between 0.1 and 120,
  and that size is computed as \<open>_generate_file_size\<close> does: a draw of
  \<open>np.random.exponential\<close> with the scale of the row's file type (15 for a database
  export, 3 for Excel, PPT and Doc, 2 for PDF and CSV, 1.5 otherwise) plus the offset
  of the type (10, 1, 0.5, 0.2), multiplied by 1.3 when the row's action is
  \<open>download\<close>, clipped to 0.1 and 120, and rounded to three decimals, which cannot
  leave the range. The table has one row for each of the \<open>n\<close> iterations.
\<close>

theorem generate_normal_events_file_size:
  assumes "generate_normal_events S n start_date days now w = Inr (df, w')"
  shows "nrows df = nat n \<and> list_all (size_in (1 / 10) 120) (frame_rows df) \<and>
    list_all (exponential_size S) (frame_rows df)"
proof -
  from assms obtain sd rs w1
    where rs: "for_range (nat n) (normal_event S sd days) w1 = Inr (rs, w')"
      and df: "df = DataFrame rs"
    unfolding generate_normal_events_def by (auto dest!: and_then_Inr pure_Inr)
  have "list_all (\<lambda>r. map fst r = event_columns \<and> size_in (1 / 10) 120 (map_of r)) rs"
    using rs by (rule for_range_list_all [rotated]) (rule normal_event_row)
  then have range: "list_all (size_in (1 / 10) 120) (frame_rows df)"
    unfolding df by (rule DataFrame_rows_all [OF distinct_event_columns])
  have "list_all (\<lambda>r. map fst r = event_columns \<and> exponential_size S (map_of r)) rs"
    using rs by (rule for_range_list_all [rotated]) (rule normal_event_drawn)
  then have "list_all (exponential_size S) (frame_rows df)"
    unfolding df by (rule DataFrame_rows_all [OF distinct_event_columns])
  then show ?thesis using range for_range_length [OF rs] by (simp add: df nrows_DataFrame)
qed

lemma normal_example_run:
  "generate_normal_events counter_sources 2 (Some day_2024_01_01) 3 day_2024_01_01
     (counters 0 0 0) = Inr (normal_example, counters 10 4 2)"
  by code_simp

theorem generate_normal_events_file_size_witness:
  "generate_normal_events counter_sources 2 (Some day_2024_01_01) 3 day_2024_01_01
     (counters 0 0 0) = Inr (normal_example, counters 10 4 2) \<and>
   nrows normal_example = nat 2 \<and>
   list_all (size_in (1 / 10) 120) (frame_rows normal_example) \<and>
   list_all (exponential_size counter_sources) (frame_rows normal_example)"
  using generate_normal_events_file_size [OF normal_example_run] normal_example_run
  by simp


subsection \<open>The sources and the reference instance\<close>

lemma counter_randint_in_range: "randint_in_range counter_sources"
proof -
  have "lo \<le> lo + int g mod (hi - lo) \<and> lo + int g mod (hi - lo) < hi"
    if "lo < hi" for lo hi :: int and g :: nat
  proof -
    from that have "0 \<le> int g mod (hi - lo)" "int g mod (hi - lo) < hi - lo" by simp_all
    then show ?thesis by linarith
  qed
  then show ?thesis by (simp add: randint_in_range_def counter_sources_def)
qed


lemma valid_day_2024_01_01: "valid_datetime day_2024_01_01"
  by (simp add: valid_datetime_def day_2024_01_01_def MAXORDINAL_def)

subsection \<open>Mass downloads\<close>

lemma randint_Inr:
  assumes "randint_in_range S" "randint S lo hi w = Inr (v, w')"
  shows "lo \<le> v \<and> v < hi"
proof -
  from assms(2) have lt: "lo < hi" and v: "v = fst (np_random_randint S lo hi (np_state w))"
    by (auto simp: randint_def split: if_splits prod.splits)
  from assms(1) lt show ?thesis unfolding v randint_in_range_def by blast
qed

lemma randint_total: "lo < hi \<Longrightarrow> \<exists>v w'. randint S lo hi w = Inr (v, w')"
  by (simp add: randint_def split: prod.splits)


lemma uniform_total: "\<exists>v w'. uniform S lo hi w = Inr (v, w')"
  by (simp add: uniform_def split: prod.splits)

lemma choices_total: "\<exists>v w'. choices S population weights w = Inr (v, w')"
  by (simp add: choices_def split: prod.splits)

lemma uuid4_total: "\<exists>v w'. uuid4 S w = Inr (v, w')"
  by (simp add: uuid4_def split: prod.splits)

lemma timedelta_minutes:
  "0 \<le> m \<Longrightarrow> m < 180 \<Longrightarrow> timedelta 0 0 m = Inr (m * 60000000)"
  by (simp add: timedelta_def us_per_day_def Let_def)

lemma minutes_hour: "(k * 60000000) div 3600000000 = k div 60" for k :: int
  using div_mult_mult2 [of 60000000 k 60] by simp

lemma minutes_second: "(k * 60000000) div 1000000 mod 60 = 0" for k :: int
proof -
  have "(k * 60000000) div 1000000 = k * 60"
    using div_mult_mult2 [of 1000000 "k * 60" 1] by simp
  then show ?thesis by simp
qed

lemma minutes_microsecond: "(k * 60000000) mod 1000000 = 0" for k :: int
proof -
  have "k * 60000000 = (k * 60) * 1000000" by simp
  then show ?thesis by (metis mod_mult_self2_is_0)
qed

lemma minutes_same_day:
  "0 \<le> k \<Longrightarrow> k < 1440 \<Longrightarrow>
   (k * 60000000) div 86400000000 = 0 \<and> (k * 60000000) mod 86400000000 = k * 60000000"
  for k :: int
  by simp

lemma dt_plus_base_time:
  assumes m: "0 \<le> m" "m < 180"
  shows "dt_plus (sd\<lparr>dt_hour := 2, dt_minute := 0, dt_second := 0, dt_microsecond := 0\<rparr>) (m * 60000000) =
     (if 0 < dt_ordinal sd \<and> dt_ordinal sd \<le> MAXORDINAL
      then Inr \<lparr>dt_ordinal = dt_ordinal sd, dt_hour = (120 + m) div 60,
         dt_minute = (120 + m) mod 60, dt_second = 0, dt_microsecond = 0\<rparr>
      else Inl (OverflowError ''date value out of range''))"
proof -
  define k where "k = 120 + m"
  have k: "0 \<le> k" "k < 1440" using m by (simp_all add: k_def)
  have total: "time_of_day_us (sd\<lparr>dt_hour := 2, dt_minute := 0, dt_second := 0, dt_microsecond := 0\<rparr>) + m * 60000000 = k * 60000000"
    by (simp add: time_of_day_us_def k_def algebra_simps)
  have day: "(k * 60000000) div 86400000000 = 0" "(k * 60000000) mod 86400000000 = k * 60000000"
    using minutes_same_day [OF k] by simp_all
  have "dt_plus (sd\<lparr>dt_hour := 2, dt_minute := 0, dt_second := 0, dt_microsecond := 0\<rparr>) (m * 60000000) =
     (if 0 < dt_ordinal sd \<and> dt_ordinal sd \<le> MAXORDINAL
      then Inr \<lparr>dt_ordinal = dt_ordinal sd, dt_hour = k div 60,
         dt_minute = k mod 60, dt_second = 0, dt_microsecond = 0\<rparr>
      else Inl (OverflowError ''date value out of range''))"
    unfolding dt_plus_def Let_def total us_per_day_def day
    by (simp add: minutes_hour minutes_second minutes_microsecond)
  then show ?thesis by (simp only: k_def)
qed

lemma mass_window:
  assumes m: "0 \<le> m" "m < 180"
    and t: "dt_plus (sd\<lparr>dt_hour := 2, dt_minute := 0, dt_second := 0, dt_microsecond := 0\<rparr>) (m * 60000000) = Inr t"
  shows "in_off_hours_window sd t"
proof -
  from t have "t = \<lparr>dt_ordinal = dt_ordinal sd, dt_hour = (120 + m) div 60,
       dt_minute = (120 + m) mod 60, dt_second = 0, dt_microsecond = 0\<rparr>"
    unfolding dt_plus_base_time [OF m] by (simp split: if_splits)
  moreover have "2 \<le> (120 + m) div 60" "(120 + m) div 60 < 5" using m by linarith+
  ultimately show ?thesis by (simp add: in_off_hours_window_def)
qed

lemma mass_download_event_shape:
  assumes run: "mass_download_event S base u w = Inr (r, w')"
  shows "\<exists>m w1 td t ft x eid w2 w3. randint S 0 180 w = Inr (m, w1) \<and> timedelta 0 0 m = Inr td \<and>
     dt_plus base td = Inr t \<and>
     (if ft = ''Database export'' then uniform S 50 300 w2
        else if ft = ''PDF'' then uniform S 5 50 w2
        else uniform S 10 80 w2) = Inr (x, w3) \<and>
     r = [(''event_id'', Str eid), (''user_id'', Str u), (''file_type'', Str ft),
                 (''file_size_MB'', Num (py_round x 3)), (''access_time'', Time t),
                 (''action'', Str ''download'')]"
  using run unfolding mass_download_event_def Let_def
  apply -
  apply (drule and_then_Inr, elim exE conjE)+
  apply (drule pure_Inr)
  apply (drule lift_Inr)+
  apply (elim conjE)
  apply (simp only: if_distribR)
  apply blast
  done

lemma mass_download_event_row:
  assumes S: "randint_in_range S"
    and run: "mass_download_event S (sd\<lparr>dt_hour := 2, dt_minute := 0, dt_second := 0, dt_microsecond := 0\<rparr>) u w = Inr (r, w')"
  shows "map fst r = event_columns \<and> mass_download_row sd u (map_of r)"
proof -
  from mass_download_event_shape [OF run] obtain m w1 td t ft x eid
    where m: "randint S 0 180 w = Inr (m, w1)"
    and td: "timedelta 0 0 m = Inr td"
    and t: "dt_plus (sd\<lparr>dt_hour := 2, dt_minute := 0, dt_second := 0, dt_microsecond := 0\<rparr>) td = Inr t"
    and r: "r = [(''event_id'', Str eid), (''user_id'', Str u), (''file_type'', Str ft),
                 (''file_size_MB'', Num (py_round x 3)), (''access_time'', Time t),
                 (''action'', Str ''download'')]"
    by blast
  from randint_Inr [OF S m] have b: "0 \<le> m" "m < 180" by simp_all
  with td have "td = m * 60000000" by (simp add: timedelta_minutes)
  with t b have "in_off_hours_window sd t" by (simp add: mass_window)
  then show ?thesis by (simp add: r event_columns_def mass_download_row_def)
qed

lemma mass_download_event_total:
  assumes S: "randint_in_range S" and sd: "0 < dt_ordinal sd" "dt_ordinal sd \<le> MAXORDINAL"
  shows "\<exists>r w'. mass_download_event S (sd\<lparr>dt_hour := 2, dt_minute := 0, dt_second := 0, dt_microsecond := 0\<rparr>) u w = Inr (r, w')"
proof -
  obtain m w1 where m: "randint S 0 180 w = Inr (m, w1)"
    using randint_total [of 0 180 S w] by auto
  from randint_Inr [OF S m] have b: "0 \<le> m" "m < 180" by simp_all
  obtain t where t: "dt_plus (sd\<lparr>dt_hour := 2, dt_minute := 0, dt_second := 0, dt_microsecond := 0\<rparr>) (m * 60000000) = Inr t"
    using dt_plus_base_time [OF b, of sd] sd by simp
  obtain ft w2 where ft: "choices S [''PDF'', ''Database export'', ''Excel''] [70, 20, 10] w1 = Inr (ft, w2)"
    using choices_total by blast
  obtain x w3 where x: "(if ft = ''Database export'' then uniform S 50 300
        else if ft = ''PDF'' then uniform S 5 50
        else uniform S 10 80) w2 = Inr (x, w3)"
  proof -
    have "\<exists>x w3. (if ft = ''Database export'' then uniform S 50 300
        else if ft = ''PDF'' then uniform S 5 50
        else uniform S 10 80) w2 = Inr (x, w3)"
      by (simp add: uniform_total)
    then show ?thesis using that by blast
  qed
  obtain eid w4 where eid: "uuid4 S w3 = Inr (eid, w4)"
    using uuid4_total by blast
  show ?thesis
    unfolding mass_download_event_def Let_def
    by (simp add: and_then_def m timedelta_minutes [OF b] lift_def t ft x eid pure_def)
qed

lemma label_or_total:
  assumes "\<And>w. \<exists>u w'. draw w = Inr (u, w')"
  shows "\<exists>u w'. label_or label_user draw w = Inr (u, w')"
  using assms by (cases label_user) (simp_all add: label_or_def pure_def)

lemma employee_total:
  "\<exists>u w'. and_then (randint S 900 999) (\<lambda>i. pure (''employee'' @ py_str i)) w = Inr (u, w')"
proof -
  obtain i w1 where "randint S 900 999 w = Inr (i, w1)"
    using randint_total [of 900 999 S w] by auto
  then show ?thesis by (simp add: and_then_def pure_def)
qed

lemma generate_mass_downloads_total:
  assumes S: "randint_in_range S" and sd: "0 < dt_ordinal sd" "dt_ordinal sd \<le> MAXORDINAL"
  shows "\<exists>df w' u. generate_mass_downloads S n sd label_user w = Inr (df, w') \<and>
     nrows df = nat n \<and> list_all (mass_download_row sd u) (frame_rows df)"
proof -
  let ?base = "sd\<lparr>dt_hour := 2, dt_minute := 0, dt_second := 0, dt_microsecond := 0\<rparr>"
  obtain u w1 where u: "label_or label_user
      (and_then (randint S 900 999) (\<lambda>i. pure (''employee'' @ py_str i))) w = Inr (u, w1)"
    using label_or_total [of "and_then (randint S 900 999) (\<lambda>i. pure (''employee'' @ py_str i))"
        label_user w] employee_total [of S]
    by blast
  obtain rs w2 where rs: "for_range (nat n) (mass_download_event S ?base u) w1 = Inr (rs, w2)"
  proof -
    have "\<exists>r w'. mass_download_event S ?base u w = Inr (r, w')" for w
      by (rule mass_download_event_total [OF S sd])
    then show ?thesis using for_range_total [of "mass_download_event S ?base u" "nat n" w1] that
      by blast
  qed
  have "list_all (\<lambda>r. map fst r = event_columns \<and> mass_download_row sd u (map_of r)) rs"
    using rs by (rule for_range_list_all [rotated]) (rule mass_download_event_row [OF S])
  then have rows: "list_all (mass_download_row sd u) (frame_rows (DataFrame rs))"
    by (rule DataFrame_rows_all [OF distinct_event_columns])
  have "generate_mass_downloads S n sd label_user w = Inr (DataFrame rs, w2)"
    by (simp only: generate_mass_downloads_def Let_def and_then_def u rs pure_def
        sum.case prod.case)
  then show ?thesis using rows for_range_length [OF rs] by (auto simp: nrows_DataFrame)
qed

lemma dt_minus_one_day:
  assumes "valid_datetime now" "1 < dt_ordinal now"
  shows "\<exists>d. dt_minus now 86400000000 = Inr d \<and> dt_ordinal d = dt_ordinal now - 1 \<and>
    dt_ordinal d \<le> MAXORDINAL"
proof -
  define s where "s = time_of_day_us now"
  from assms(1) have s: "0 \<le> s" "s < 86400000000"
    unfolding s_def time_of_day_us_def valid_datetime_def by (auto simp: algebra_simps)
  have "(s - 86400000000) div 86400000000 = - 1"
    using s by (simp add: div_pos_neg_trivial div_eq_minus1 zdiv_eq_0_iff; linarith)
  then show ?thesis
    using assms unfolding dt_minus_def dt_plus_def Let_def us_per_day_def s_def [symmetric]
    by (simp add: valid_datetime_def)
qed

lemma mass_download_row_day:
  "dt_ordinal a = dt_ordinal b \<Longrightarrow> mass_download_row a u r = mass_download_row b u r"
  by (simp add: mass_download_row_def in_off_hours_window_def split: option.splits cell.splits)

text \<open>
  C8. With \<open>randint\<close> in its range, \<open>generate_suspicious_events\<close> with the
  pattern \<open>mass_downloads\<close> returns a table of \<open>n\<close> rows, and there is one user
  such that every row has the action \<open>download\<close>, that user as \<open>user_id\<close>, and
  an \<open>access_time\<close> on the day of the start date from 02:00 up to 05:00 (the base
  time 02:00:00 plus fewer than 180 whole minutes). The start date is the argument
  when there is one, which has to be a valid date; without the argument, as every
  caller in the repository has it, it is the day before the clock's \<open>now\<close>, which
  has to be a valid date after the first day of the calendar.
\<close>

theorem mass_downloads_rows:
  assumes S: "randint_in_range S"
    and start: "case start_date of Some sd \<Rightarrow> valid_datetime sd
                | None \<Rightarrow> valid_datetime now \<and> 1 < dt_ordinal now"
  shows "\<exists>df w' u.
     generate_suspicious_events S n start_date label_user ''mass_downloads'' now w = Inr (df, w') \<and>
     nrows df = nat n \<and>
     list_all (mass_download_row (case start_date of Some sd \<Rightarrow> sd | None \<Rightarrow> day_before now) u)
       (frame_rows df)"
proof (cases start_date)
  case (Some sd)
  with start have o: "0 < dt_ordinal sd" "dt_ordinal sd \<le> MAXORDINAL"
    by (simp_all add: valid_datetime_def)
  have "generate_suspicious_events S n start_date label_user ''mass_downloads'' now w =
        generate_mass_downloads S n sd label_user w"
    by (simp add: Some generate_suspicious_events_def and_then_def pure_def)
  then show ?thesis using generate_mass_downloads_total [OF S o] by (simp add: Some)
next
  case None
  with start have now: "valid_datetime now" "1 < dt_ordinal now" by simp_all
  from dt_minus_one_day [OF now] obtain d
    where d: "dt_minus now 86400000000 = Inr d" and day: "dt_ordinal d = dt_ordinal now - 1"
      and o2: "dt_ordinal d \<le> MAXORDINAL"
    by blast
  from day now(2) have o1: "0 < dt_ordinal d" by simp
  have td: "timedelta 1 0 0 = Inr 86400000000"
    by (simp add: timedelta_def us_per_day_def Let_def)
  have run: "generate_suspicious_events S n None label_user ''mass_downloads'' now w =
        generate_mass_downloads S n d label_user w"
    by (simp add: generate_suspicious_events_def and_then_def lift_def td d)
  have same: "mass_download_row d u = mass_download_row (day_before now) u" for u
    by (rule ext) (simp add: mass_download_row_day [of d "day_before now"] day day_before_def)
  from generate_mass_downloads_total [OF S o1 o2, of n label_user w] show ?thesis
    unfolding None by (simp add: run same)
qed

lemma mass_example_run:
  "generate_suspicious_events counter_sources 3 (Some day_2024_01_01) None ''mass_downloads''
     day_2024_01_01 (counters 1 1 0) = Inr (mass_example, counters 8 4 3)"
  by code_simp

lemma mass_example_rows:
  "list_all (mass_download_row day_2024_01_01 ''employee901'') (frame_rows mass_example)"
  by code_simp

lemma mass_default_run:
  "map_sum id (\<lambda>(df, w). (nrows df, column df ''user_id'', column df ''access_time'', w))
     (generate_suspicious_events counter_sources 3 None None ''mass_downloads''
        day_2024_01_01 (counters 1 1 0)) =
   Inr (3, Inr [Str ''employee901'', Str ''employee901'', Str ''employee901''],
        Inr [Time \<lparr>dt_ordinal = 738885, dt_hour = 2, dt_minute = 2, dt_second = 0,
                   dt_microsecond = 0\<rparr>,
             Time \<lparr>dt_ordinal = 738885, dt_hour = 2, dt_minute = 4, dt_second = 0,
                   dt_microsecond = 0\<rparr>,
             Time \<lparr>dt_ordinal = 738885, dt_hour = 2, dt_minute = 6, dt_second = 0,
                   dt_microsecond = 0\<rparr>],
        counters 8 4 3)"
  by code_simp

lemma day_before_example: "dt_ordinal (day_before day_2024_01_01) = 738885"
  by (simp add: day_before_def day_2024_01_01_def)

theorem mass_downloads_rows_witness:
  "randint_in_range counter_sources \<and> valid_datetime day_2024_01_01 \<and>
   1 < dt_ordinal day_2024_01_01 \<and>
   (\<exists>df w' u.
      generate_suspicious_events counter_sources 3 (Some day_2024_01_01) None ''mass_downloads''
        day_2024_01_01 (counters 1 1 0) = Inr (df, w') \<and>
      nrows df = nat 3 \<and> list_all (mass_download_row day_2024_01_01 u) (frame_rows df)) \<and>
   generate_suspicious_events counter_sources 3 (Some day_2024_01_01) None ''mass_downloads''
     day_2024_01_01 (counters 1 1 0) = Inr (mass_example, counters 8 4 3) \<and>
   list_all (mass_download_row day_2024_01_01 ''employee901'') (frame_rows mass_example) \<and>
   (\<exists>df w' u.
      generate_suspicious_events counter_sources 3 None None ''mass_downloads''
        day_2024_01_01 (counters 1 1 0) = Inr (df, w') \<and>
      nrows df = nat 3 \<and>
      list_all (mass_download_row (day_before day_2024_01_01) u) (frame_rows df)) \<and>
   dt_ordinal (day_before day_2024_01_01) = 738885 \<and>
   map_sum id (\<lambda>(df, w). (nrows df, column df ''user_id'', column df ''access_time'', w))
     (generate_suspicious_events counter_sources 3 None None ''mass_downloads''
        day_2024_01_01 (counters 1 1 0)) =
   Inr (3, Inr [Str ''employee901'', Str ''employee901'', Str ''employee901''],
        Inr [Time \<lparr>dt_ordinal = 738885, dt_hour = 2, dt_minute = 2, dt_second = 0,
                   dt_microsecond = 0\<rparr>,
             Time \<lparr>dt_ordinal = 738885, dt_hour = 2, dt_minute = 4, dt_second = 0,
                   dt_microsecond = 0\<rparr>,
             Time \<lparr>dt_ordinal = 738885, dt_hour = 2, dt_minute = 6, dt_second = 0,
                   dt_microsecond = 0\<rparr>],
        counters 8 4 3)"
  using mass_downloads_rows [of counter_sources day_2024_01_01 "Some day_2024_01_01" 3 None
      "counters 1 1 0"]
    mass_downloads_rows [of counter_sources day_2024_01_01 None 3 None "counters 1 1 0"]
    counter_randint_in_range valid_day_2024_01_01 mass_example_run mass_example_rows
    mass_default_run day_before_example
  by (simp add: day_2024_01_01_def)

subsection \<open>Sizes of suspicious events\<close>











subsection \<open>Reproducibility\<close>

lemma related_pure: "R a b \<Longrightarrow> related R (pure a) (pure b)"
  by (simp add: related_def rel_gen_def pure_def)

lemma related_lift: "related (=) (lift r) (lift r)"
  by (cases r) (simp_all add: related_def rel_gen_def lift_def)

lemma related_bind:
  fixes m1 m2 :: "('a, 'g, 'r, 'e) gen" and f g :: "'a \<Rightarrow> ('b, 'g, 'r, 'e) gen"
  assumes m: "related Q m1 m2" and f: "\<And>a b. Q a b \<Longrightarrow> related R (f a) (g b)"
  shows "related R (and_then m1 f) (and_then m2 g)"
  unfolding related_def
proof (intro allI impI)
  fix w1 w2 :: "('g, 'r, 'e) world"
  assume "agree w1 w2"
  with m have r: "rel_gen Q (m1 w1) (m2 w2)" by (simp add: related_def)
  show "rel_gen R (and_then m1 f w1) (and_then m2 g w2)"
  proof (cases "m1 w1")
    case (Inl e)
    with r show ?thesis by (auto simp: rel_gen_def and_then_def split: sum.splits)
  next
    case (Inr p)
    obtain a v1 where p: "p = (a, v1)" by (cases p)
    from r Inr p obtain b v2 where y: "m2 w2 = Inr (b, v2)" and q: "Q a b" and ag: "agree v1 v2"
      by (auto simp: rel_gen_def split: sum.splits)
    from f [OF q] ag have "rel_gen R (f a v1) (g b v2)" by (simp add: related_def)
    then show ?thesis by (simp add: and_then_def Inr p y)
  qed
qed

lemma related_randint: "related (=) (randint S lo hi) (randint S lo hi)"
  by (simp add: related_def rel_gen_def randint_def agree_def split: prod.splits)

lemma related_normal: "related (=) (normal S loc scale) (normal S loc scale)"
  by (simp add: related_def rel_gen_def normal_def agree_def split: prod.splits)

lemma related_exponential: "related (=) (exponential S scale) (exponential S scale)"
  by (simp add: related_def rel_gen_def exponential_def agree_def split: prod.splits)

lemma related_uniform: "related (=) (uniform S lo hi) (uniform S lo hi)"
  by (simp add: related_def rel_gen_def uniform_def agree_def split: prod.splits)

lemma related_choices: "related (=) (choices S population weights) (choices S population weights)"
  by (simp add: related_def rel_gen_def choices_def agree_def split: prod.splits)

lemma related_choice: "related (=) (choice S population) (choice S population)"
  by (simp add: related_def rel_gen_def choice_def agree_def split: prod.splits)

lemma related_uuid4: "related (\<lambda>_ _. True) (uuid4 S) (uuid4 S)"
  by (simp add: related_def rel_gen_def uuid4_def agree_def split: prod.splits)

lemma related_if:
  "related R m1 m2 \<Longrightarrow> related R n1 n2 \<Longrightarrow> related R (if c then m1 else n1) (if c then m2 else n2)"
  by simp

lemma related_random_user: "related (=) (random_user S) (random_user S)"
  unfolding random_user_def
  by (rule related_bind [where Q = "(=)"], rule related_randint, hypsubst, rule related_pure, rule refl)

lemma related_draw:
  "related (=) (and_then (m :: ('a, 'g, 'r, 'e) gen) (\<lambda>x. pure (h x))) (and_then m (\<lambda>x. pure (h x)))"
  if "related (=) m m"
  by (rule related_bind [where Q = "(=)"], rule that, hypsubst, rule related_pure, rule refl)

lemma related_generate_file_size:
  "related (=) (generate_file_size S ft a) (generate_file_size S ft a)"
  unfolding generate_file_size_def Let_def
  apply (rule related_bind [where Q = "(=)"])
   apply (intro related_if related_draw related_exponential)
  apply hypsubst
  apply (rule related_pure, rule refl)
  done

lemma related_label_or:
  "related (=) draw draw \<Longrightarrow> related (=) (label_or label_user draw) (label_or label_user draw)"
  by (cases label_user) (simp_all add: label_or_def related_pure)

lemmas related_draws =
  related_randint related_normal related_exponential related_uniform related_choices
  related_choice related_lift related_random_user related_generate_file_size

lemma same_but_id_event:
  "same_but_id ((''event_id'', a) # rest) ((''event_id'', b) # rest)"
  by (simp add: same_but_id_def)

lemma related_normal_event:
  "related same_but_id (normal_event S sd days) (normal_event S sd days)"
  unfolding normal_event_def Let_def
  apply ((rule related_bind [where Q = "(=)"], rule related_draws, hypsubst)+)
  apply (rule related_bind [where Q = "\<lambda>_ _. True"], rule related_uuid4)
  apply (rule related_pure, rule same_but_id_event)
  done

lemma related_mass_download_event:
  "related same_but_id (mass_download_event S base u) (mass_download_event S base u)"
  unfolding mass_download_event_def Let_def
  apply ((rule related_bind [where Q = "(=)"], (rule related_draws | intro related_if related_uniform),
      hypsubst)+)
  apply (rule related_bind [where Q = "\<lambda>_ _. True"], rule related_uuid4)
  apply (rule related_pure, rule same_but_id_event)
  done

lemma related_generic_suspicious_event:
  "related same_but_id (generic_suspicious_event S sd lu) (generic_suspicious_event S sd lu)"
  unfolding generic_suspicious_event_def Let_def
  apply ((rule related_bind [where Q = "(=)"],
      (rule related_draws | rule related_label_or, rule related_random_user), hypsubst)+)
  apply (rule related_bind [where Q = "\<lambda>_ _. True"], rule related_uuid4)
  apply (rule related_pure, rule same_but_id_event)
  done

lemma related_for_range:
  assumes "related R body1 body2"
  shows "related (list_all2 R) (for_range k body1) (for_range k body2)"
proof (induction k)
  case 0
  show ?case by (simp add: related_pure)
next
  case (Suc k)
  show ?case
    apply simp
    apply (rule related_bind [OF assms])
    apply (rule related_bind [OF Suc])
    apply (rule related_pure)
    apply simp
    done
qed


lemma map_of_filter_key:
  "P c \<Longrightarrow> map_of (filter (\<lambda>p. P (fst p)) r) c = map_of r c"
  by (induction r) auto

lemma same_but_id_lookup:
  assumes "same_but_id r1 r2" "c \<noteq> ''event_id''"
  shows "map_of r1 c = map_of r2 c"
proof -
  have "map_of r1 c = map_of (filter (\<lambda>p. fst p \<noteq> ''event_id'') r1) c"
    using assms(2) map_of_filter_key [of "\<lambda>k. k \<noteq> ''event_id''" c r1] by simp
  also have "\<dots> = map_of (filter (\<lambda>p. fst p \<noteq> ''event_id'') r2) c"
    using assms(1) by (simp add: same_but_id_def)
  also have "\<dots> = map_of r2 c"
    using assms(2) map_of_filter_key [of "\<lambda>k. k \<noteq> ''event_id''" c r2] by simp
  finally show ?thesis .
qed

lemma same_but_id_columns:
  assumes "list_all2 same_but_id rs1 rs2" "c \<noteq> ''event_id''"
  shows "map (\<lambda>d. case map_of d c of Some v \<Rightarrow> v | None \<Rightarrow> NaN) rs1 =
         map (\<lambda>d. case map_of d c of Some v \<Rightarrow> v | None \<Rightarrow> NaN) rs2"
  using assms(1)
  by (induction rule: list_all2_induct) (simp_all add: same_but_id_lookup [OF _ assms(2)])

lemma same_but_id_keys:
  assumes "list_all2 same_but_id rs1 rs2"
  shows "map (map fst) rs1 = map (map fst) rs2"
  using assms by (induction rule: list_all2_induct) (simp_all add: same_but_id_def)

lemma DataFrame_frames_agree:
  assumes "list_all2 same_but_id rs1 rs2"
  shows "frames_agree (DataFrame rs1) (DataFrame rs2)"
proof -
  let ?ks = "first_seen (concat (map (map fst) rs1))"
  let ?col = "\<lambda>rs k. map (\<lambda>d. case map_of d k of Some v \<Rightarrow> v | None \<Rightarrow> NaN) rs"
  have keys: "first_seen (concat (map (map fst) rs2)) = ?ks"
    using same_but_id_keys [OF assms] by simp
  have len: "length rs1 = length rs2" using assms by (rule list_all2_lengthD)
  have "filter (\<lambda>p. fst p \<noteq> ''event_id'') (map (\<lambda>k. (k, ?col rs k)) ks) =
        map (\<lambda>k. (k, ?col rs k)) (filter (\<lambda>k. k \<noteq> ''event_id'') ks)" for rs ks
    by (induction ks) simp_all
  moreover have "map (\<lambda>k. (k, ?col rs1 k)) (filter (\<lambda>k. k \<noteq> ''event_id'') ?ks) =
        map (\<lambda>k. (k, ?col rs2 k)) (filter (\<lambda>k. k \<noteq> ''event_id'') ?ks)"
    by (rule map_cong) (simp_all add: same_but_id_columns [OF assms])
  ultimately show ?thesis
    by (simp add: frames_agree_def drop_column_def DataFrame_def keys len)
qed

lemma related_frame:
  assumes "related same_but_id body body"
  shows "related frames_agree (and_then (for_range k body) (\<lambda>rows. pure (DataFrame rows)))
     (and_then (for_range k body) (\<lambda>rows. pure (DataFrame rows)))"
  by (rule related_bind [OF related_for_range [OF assms]], rule related_pure,
      rule DataFrame_frames_agree)

lemma related_generate_normal_events:
  "related frames_agree (generate_normal_events S n (Some sd) days now1)
     (generate_normal_events S n (Some sd) days now2)"
  unfolding generate_normal_events_def option.case
  by (rule related_bind [where Q = "(=)"], rule related_pure, rule refl, hypsubst,
      rule related_frame, rule related_normal_event)

lemma related_generate_mass_downloads:
  "related frames_agree (generate_mass_downloads S n sd lu) (generate_mass_downloads S n sd lu)"
  unfolding generate_mass_downloads_def Let_def
  by (rule related_bind [where Q = "(=)"], rule related_label_or, rule related_draw,
      rule related_randint, hypsubst, rule related_frame, rule related_mass_download_event)

lemma related_generate_generic_suspicious:
  "related frames_agree (generate_generic_suspicious S n sd lu)
     (generate_generic_suspicious S n sd lu)"
  unfolding generate_generic_suspicious_def
  by (rule related_frame, rule related_generic_suspicious_event)

lemma related_generate_suspicious_events:
  "related frames_agree (generate_suspicious_events S n (Some sd) lu pattern now1)
     (generate_suspicious_events S n (Some sd) lu pattern now2)"
  unfolding generate_suspicious_events_def option.case
  by (rule related_bind [where Q = "(=)"], rule related_pure, rule refl, hypsubst,
      intro related_if related_generate_mass_downloads related_generate_generic_suspicious)

lemma related_seeded_view:
  assumes "related frames_agree m1 m2"
  shows "seeded_view (m1 \<lparr>np_state = g, py_state = r, os_entropy = e1\<rparr>) =
         seeded_view (m2 \<lparr>np_state = g, py_state = r, os_entropy = e2\<rparr>)"
proof -
  have "rel_gen frames_agree (m1 \<lparr>np_state = g, py_state = r, os_entropy = e1\<rparr>)
     (m2 \<lparr>np_state = g, py_state = r, os_entropy = e2\<rparr>)"
    using assms by (simp add: related_def agree_def)
  then show ?thesis
  proof (cases "m1 \<lparr>np_state = g, py_state = r, os_entropy = e1\<rparr>")
    case (Inl e)
    moreover assume "rel_gen frames_agree (m1 \<lparr>np_state = g, py_state = r, os_entropy = e1\<rparr>)
       (m2 \<lparr>np_state = g, py_state = r, os_entropy = e2\<rparr>)"
    ultimately have "m2 \<lparr>np_state = g, py_state = r, os_entropy = e2\<rparr> = Inl e"
      by (auto simp: rel_gen_def split: sum.splits)
    with Inl show ?thesis by (simp add: seeded_view_def)
  next
    case (Inr p)
    obtain a v1 where p: "p = (a, v1)" by (cases p)
    assume "rel_gen frames_agree (m1 \<lparr>np_state = g, py_state = r, os_entropy = e1\<rparr>)
       (m2 \<lparr>np_state = g, py_state = r, os_entropy = e2\<rparr>)"
    with Inr p obtain b v2
      where "m2 \<lparr>np_state = g, py_state = r, os_entropy = e2\<rparr> = Inr (b, v2)"
        and "frames_agree a b" and "agree v1 v2"
      by (auto simp: rel_gen_def split: sum.splits)
    with Inr p show ?thesis by (simp add: seeded_view_def frames_agree_def agree_def)
  qed
qed

text \<open>
  C1, as the code has it. Two runs of \<open>generate_normal_events\<close>, or of
  \<open>generate_suspicious_events\<close>, that start with numpy's and Python's generators in
  the same state and are given the same parameters, an explicit start date among them,
  raise the same exception or return tables that are equal row for row in every column
  but \<open>event_id\<close>, and leave both generators in the same state; the entropy of the
  operating system and the clock may differ between the runs.
\<close>

theorem generators_reproducible_but_event_id:
  "seeded_view (generate_normal_events S n (Some sd) days now1
       \<lparr>np_state = g, py_state = r, os_entropy = e1\<rparr>) =
   seeded_view (generate_normal_events S n (Some sd) days now2
       \<lparr>np_state = g, py_state = r, os_entropy = e2\<rparr>) \<and>
   seeded_view (generate_suspicious_events S n (Some sd) label_user pattern now1
       \<lparr>np_state = g, py_state = r, os_entropy = e1\<rparr>) =
   seeded_view (generate_suspicious_events S n (Some sd) label_user pattern now2
       \<lparr>np_state = g, py_state = r, os_entropy = e2\<rparr>)"
  by (intro conjI related_seeded_view related_generate_normal_events
      related_generate_suspicious_events)

text \<open>
  C1 as stated fails: \<open>event_id\<close> is \<open>str(uuid.uuid4())\<close>, which reads the entropy
  of the operating system. Two runs with the same seeded state and the same parameters
  whose entropy differs return different tables.
\<close>

theorem event_id_differs_between_runs:
  "event_ids (generate_normal_events counter_sources 1 (Some day_2024_01_01) 3 day_2024_01_01
      \<lparr>np_state = 0, py_state = 0, os_entropy = 0\<rparr>) = Inr [Str ''u0''] \<and>
   event_ids (generate_normal_events counter_sources 1 (Some day_2024_01_01) 3 day_2024_01_01
      \<lparr>np_state = 0, py_state = 0, os_entropy = 1\<rparr>) = Inr [Str ''u1''] \<and>
   generate_normal_events counter_sources 1 (Some day_2024_01_01) 3 day_2024_01_01
      \<lparr>np_state = 0, py_state = 0, os_entropy = 0\<rparr> \<noteq>
   generate_normal_events counter_sources 1 (Some day_2024_01_01) 3 day_2024_01_01
      \<lparr>np_state = 0, py_state = 0, os_entropy = 1\<rparr>"
  by code_simp

section \<open>Proofs: ml_pipeline.py\<close>

subsection \<open>The scored table\<close>

lemma then_exn_Inr: "then_exn r f = Inr b \<Longrightarrow> \<exists>a. r = Inr a \<and> f a = Inr b"
  by (cases r) (simp_all add: then_exn_def)


lemma set_column_Inr: "set_column df c vs = Inr d \<Longrightarrow> length vs = nrows df \<and> d = assign df c vs"
  by (simp add: set_column_def split: if_splits)

lemma column_assign_same: "column (assign df c vs) c = Inr vs"
  by (simp add: column_def assign_def update_conv')

lemma column_assign_other: "c' \<noteq> c \<Longrightarrow> column (assign df c vs) c' = column df c'"
  by (simp add: column_def assign_def update_conv')

lemma nrows_assign: "nrows (assign df c vs) = nrows df"
  by (simp add: assign_def)

lemma scored_frame_Inr:
  assumes "then_exn (prep_transform sk p F) (\<lambda>X.
           then_exn (model_score_samples sk p X) (\<lambda>scores.
           then_exn (risk_scores scores) (\<lambda>risk.
           then_exn (prep_transform sk p F) (\<lambda>X'.
           then_exn (model_predict sk p X') (\<lambda>preds.
           then_exn (set_column df ''risk_score'' (map (\<lambda>x. Num (py_round x 2)) risk)) (\<lambda>s1.
           then_exn (set_column s1 ''anomaly_flag'' (map (\<lambda>y. Bool (y = - 1)) preds)) k)))))) = Inr scored"
  shows "\<exists>X scores risk preds.
     prep_transform sk p F = Inr X \<and> model_score_samples sk p X = Inr scores \<and>
     risk_scores scores = Inr risk \<and> model_predict sk p X = Inr preds \<and>
     length risk = nrows df \<and> length preds = nrows df \<and>
     k (assign (assign df ''risk_score'' (map (\<lambda>x. Num (py_round x 2)) risk))
          ''anomaly_flag'' (map (\<lambda>y. Bool (y = - 1)) preds)) = Inr scored"
  using assms
  apply -
  apply (drule then_exn_Inr, elim exE conjE)+
  apply (drule set_column_Inr)+
  apply (auto simp: nrows_assign)
  done


lemma fit_and_score_Inr:
  assumes "fst (fit_and_score sk self df) = Inr (p, scored)"
  shows "\<exists>df_feat X scores risk preds hour dayofweek is_weekend is_after_hours.
     engineer_features df = Inr df_feat \<and>
     pipeline_fit sk (build_pipeline sk self) df_feat = (None, p) \<and>
     prep_transform sk p df_feat = Inr X \<and> model_score_samples sk p X = Inr scores \<and>
     risk_scores scores = Inr risk \<and> model_predict sk p X = Inr preds \<and>
     length risk = nrows df \<and> length preds = nrows df \<and>
     scored = assign (assign (assign (assign (scored_frame df risk preds) ''hour'' hour)
                ''dayofweek'' dayofweek) ''is_weekend'' is_weekend)
                ''is_after_hours'' is_after_hours \<and>
     fst (snd (fit_and_score sk self df)) =
       self\<lparr>pipeline := Some p, feature_columns := Some (columns df_feat)\<rparr>"
proof -
  from assms obtain df_feat where ef: "engineer_features df = Inr df_feat"
    by (cases "engineer_features df") (simp_all add: fit_and_score_def)
  obtain err q where fit: "pipeline_fit sk (build_pipeline sk self) df_feat = (err, q)"
    by (cases "pipeline_fit sk (build_pipeline sk self) df_feat")
  from assms ef fit have err: "err = None"
    by (cases err) (simp_all add: fit_and_score_def)
  let ?chain = "then_exn (prep_transform sk q df_feat) (\<lambda>X.
           then_exn (model_score_samples sk q X) (\<lambda>scores.
           then_exn (risk_scores scores) (\<lambda>risk.
           then_exn (prep_transform sk q df_feat) (\<lambda>X'.
           then_exn (model_predict sk q X') (\<lambda>preds.
           then_exn (set_column df ''risk_score'' (map (\<lambda>x. Num (py_round x 2)) risk)) (\<lambda>s1.
           then_exn (set_column s1 ''anomaly_flag'' (map (\<lambda>y. Bool (y = - 1)) preds)) (\<lambda>s2.
           then_exn (column df_feat ''hour'') (\<lambda>hour.
           then_exn (column df_feat ''dayofweek'') (\<lambda>dayofweek.
           then_exn (column df_feat ''is_weekend'') (\<lambda>is_weekend.
           then_exn (column df_feat ''is_after_hours'') (\<lambda>is_after_hours.
           Inr (assign (assign (assign (assign s2 ''hour'' hour)
                  ''dayofweek'' dayofweek) ''is_weekend'' is_weekend)
                  ''is_after_hours'' is_after_hours))))))))))))"
  have unfolded: "fit_and_score sk self df =
     (case ?chain of
        Inl e \<Rightarrow> (Inl e, self\<lparr>pipeline := Some q, feature_columns := Some (columns df_feat)\<rparr>,
                 [LogInfo ''Starting model training and scoring''])
      | Inr df_scored \<Rightarrow>
          (Inr (q, df_scored), self\<lparr>pipeline := Some q, feature_columns := Some (columns df_feat)\<rparr>,
           [LogInfo ''Starting model training and scoring''] @
           [LogInfo (''Model training completed. Detected '' @
              py_str (int (length (filter (\<lambda>c. c = Bool True)
                 (case column df_scored ''anomaly_flag'' of Inr flags \<Rightarrow> flags | Inl _ \<Rightarrow> [])))) @
              '' anomalies'')]))"
    by (simp only: fit_and_score_def Let_def ef fit err sum.case prod.case option.case)
  from assms have chain: "?chain = Inr scored" and q: "q = p"
    unfolding unfolded by (cases ?chain; simp)+
  have "fst (snd (fit_and_score sk self df)) =
       self\<lparr>pipeline := Some q, feature_columns := Some (columns df_feat)\<rparr>"
    unfolding unfolded chain by simp
  then have self': "fst (snd (fit_and_score sk self df)) =
       self\<lparr>pipeline := Some p, feature_columns := Some (columns df_feat)\<rparr>"
    by (simp only: q)
  from scored_frame_Inr [OF chain] obtain X scores risk preds where
    parts: "prep_transform sk q df_feat = Inr X" "model_score_samples sk q X = Inr scores"
      "risk_scores scores = Inr risk" "model_predict sk q X = Inr preds"
      "length risk = nrows df" "length preds = nrows df"
    and rest: "then_exn (column df_feat ''hour'') (\<lambda>hour.
           then_exn (column df_feat ''dayofweek'') (\<lambda>dayofweek.
           then_exn (column df_feat ''is_weekend'') (\<lambda>is_weekend.
           then_exn (column df_feat ''is_after_hours'') (\<lambda>is_after_hours.
           Inr (assign (assign (assign (assign (scored_frame df risk preds) ''hour'' hour)
                  ''dayofweek'' dayofweek) ''is_weekend'' is_weekend)
                  ''is_after_hours'' is_after_hours))))) = Inr scored"
    unfolding scored_frame_def by blast
  from rest have "\<exists>hour dayofweek is_weekend is_after_hours.
    scored = assign (assign (assign (assign (scored_frame df risk preds) ''hour'' hour)
                ''dayofweek'' dayofweek) ''is_weekend'' is_weekend)
                ''is_after_hours'' is_after_hours"
    apply -
    apply (drule then_exn_Inr, elim exE conjE)+
    apply (intro exI)
    apply (rule sym)
    apply simp
    done
  with ef fit err q parts self' show ?thesis by blast
qed



lemma risk_scores_range:
  assumes "risk_scores scores = Inr risk"
  shows "length risk = length scores \<and> scores \<noteq> [] \<and> list_all (\<lambda>x. 0 \<le> x \<and> x \<le> 100) risk"
proof -
  from assms have ne: "scores \<noteq> []" by (auto simp: risk_scores_def split: if_splits)
  define raw where "raw = map uminus scores"
  define lo where "lo = Min (set raw)"
  define hi where "hi = Max (set raw)"
  from assms ne have risk: "risk = map (\<lambda>x. (x - lo) / (hi - lo + 1 / 1000000000) * 100) raw"
    by (simp add: risk_scores_def Let_def raw_def lo_def hi_def)
  have "0 \<le> (x - lo) / (hi - lo + 1 / 1000000000) * 100 \<and>
        (x - lo) / (hi - lo + 1 / 1000000000) * 100 \<le> 100" if "x \<in> set raw" for x
  proof -
    from that have b: "lo \<le> x" "x \<le> hi" by (simp_all add: lo_def hi_def)
    then have pos: "0 < hi - lo + 1 / 1000000000" by simp
    define q where "q = (x - lo) / (hi - lo + 1 / 1000000000)"
    from b have "0 \<le> q" using pos by (simp add: q_def)
    moreover from b have "q \<le> 1"
      using pos by (simp add: q_def pos_divide_le_eq)
    ultimately have "0 \<le> q * 100 \<and> q * 100 \<le> 100" by linarith
    then show ?thesis unfolding q_def .
  qed
  then have "list_all (\<lambda>y. 0 \<le> y \<and> y \<le> 100) risk"
    unfolding risk list_all_iff set_map by blast
  moreover have "length risk = length scores" by (simp add: risk raw_def)
  ultimately show ?thesis using ne by simp
qed

lemma py_round2_risk:
  "0 \<le> x \<Longrightarrow> x \<le> 100 \<Longrightarrow> 0 \<le> py_round x 2 \<and> py_round x 2 \<le> 100"
  using py_round_between [of 0 2 x 10000] by simp


lemma scored_frame_risk:
  assumes "risk_scores scores = Inr risk" "length risk = nrows df"
  shows "0 < nrows df \<and>
    column (scored_frame df risk preds) ''risk_score'' = Inr (map (\<lambda>x. Num (py_round x 2)) risk) \<and>
    list_all (\<lambda>c. case c of Num x \<Rightarrow> 0 \<le> x \<and> x \<le> 100 | _ \<Rightarrow> False)
      (map (\<lambda>x. Num (py_round x 2)) risk)"
proof -
  from risk_scores_range [OF assms(1)] have len: "length risk = length scores" "scores \<noteq> []"
    and r: "list_all (\<lambda>x. 0 \<le> x \<and> x \<le> 100) risk"
    by simp_all
  from r have "list_all (\<lambda>c. case c of Num x \<Rightarrow> 0 \<le> x \<and> x \<le> 100 | _ \<Rightarrow> False)
      (map (\<lambda>x. Num (py_round x 2)) risk)"
    by (simp add: list_all_iff py_round2_risk)
  moreover have "column (scored_frame df risk preds) ''risk_score'' =
      Inr (map (\<lambda>x. Num (py_round x 2)) risk)"
    by (simp add: scored_frame_def column_assign_other column_assign_same)
  moreover from len assms(2) have "0 < nrows df" by (cases scores) auto
  ultimately show ?thesis by simp
qed






subsection \<open>Scoring the training batch again\<close>

lemma columns_assign_distinct: "distinct (columns df) \<Longrightarrow> distinct (columns (assign df c vs))"
  by (simp add: columns_def assign_def distinct_update)

lemma then_exn_Inr_apply: "then_exn (Inr a) f = f a"
  by (simp add: then_exn_def)

lemma merge_columns_Inr:
  assumes "merge_columns df new = Inr d"
  shows "distinct (columns d) \<and> nrows d = nrows df"
proof -
  from assms obtain res where "distinct (map fst res)" and "d = df\<lparr>cols := res\<rparr>"
    by (auto simp only: merge_columns_def Let_def sum.inject sum.simps split: if_splits)
  then show ?thesis by (simp add: columns_def)
qed

lemma engineer_features_Inr:
  assumes "engineer_features df = Inr df_feat"
  shows "\<exists>df4 stats df5 r1 r2 r3. merge_columns df4 stats = Inr df5 \<and> nrows df4 = nrows df \<and>
     df_feat = assign (assign (assign df5 ''file_type_risk'' r1) ''is_large_file'' r2)
                 ''size_risk_score'' r3"
  using assms unfolding engineer_features_def Let_def
  apply -
  apply (drule then_exn_Inr, elim exE conjE)+
  apply (simp only: sum.inject)
  apply (intro exI conjI)
    apply assumption
   prefer 2
   apply (erule sym)
  apply (simp add: nrows_assign)
  done

lemma engineer_features_wf:
  assumes "engineer_features df = Inr df_feat"
  shows "distinct (columns df_feat) \<and> nrows df_feat = nrows df"
proof -
  from engineer_features_Inr [OF assms] obtain df4 stats df5 r1 r2 r3
    where m: "merge_columns df4 stats = Inr df5" and n: "nrows df4 = nrows df"
      and f: "df_feat = assign (assign (assign df5 ''file_type_risk'' r1) ''is_large_file'' r2)
                 ''size_risk_score'' r3"
    by blast
  from merge_columns_Inr [OF m] n show ?thesis
    by (simp add: f columns_assign_distinct nrows_assign)
qed




lemma column_scored_frame_risk:
  "column (scored_frame df risk preds) ''risk_score'' = Inr (map (\<lambda>x. Num (py_round x 2)) risk)"
  by (simp add: scored_frame_def column_assign_same column_assign_other)

lemma scoring_chain_run:
  assumes "prep_transform sk p F = Inr X" "model_score_samples sk p X = Inr scores"
    "risk_scores scores = Inr risk" "model_predict sk p X = Inr preds"
    "length risk = nrows df" "length preds = nrows df"
  shows "then_exn (prep_transform sk p F) (\<lambda>X.
       then_exn (model_score_samples sk p X) (\<lambda>scores.
       then_exn (risk_scores scores) (\<lambda>risk.
       then_exn (prep_transform sk p F) (\<lambda>X'.
       then_exn (model_predict sk p X') (\<lambda>preds.
       then_exn (set_column df ''risk_score'' (map (\<lambda>x. Num (py_round x 2)) risk)) (\<lambda>s1.
       set_column s1 ''anomaly_flag'' (map (\<lambda>y. Bool (y = - 1)) preds))))))) =
     Inr (scored_frame df risk preds)"
  using assms by (simp add: then_exn_def set_column_def nrows_assign scored_frame_def)




subsection \<open>The empty batch\<close>

lemma engineer_features_no_access_time:
  "''access_time'' \<notin> set (columns df) \<Longrightarrow> engineer_features df = Inl (KeyError [''access_time''])"
proof -
  assume "''access_time'' \<notin> set (columns df)"
  then have "map_of (cols df) ''access_time'' = None"
    by (simp add: columns_def map_of_eq_None_iff)
  then have "column df ''access_time'' = Inl (KeyError [''access_time''])"
    by (simp add: column_def)
  then show ?thesis by (simp add: engineer_features_def then_exn_def)
qed

lemma engineer_features_not_datetime:
  assumes "column df ''access_time'' = Inr []" "''access_time'' \<notin> set (empty_datetime64 df)"
  shows "engineer_features df = Inl not_datetimelike"
  using assms by (simp add: engineer_features_def then_exn_def dt_accessor_def)

lemma then_exn_not_Inl:
  "r \<noteq> Inl e \<Longrightarrow> (\<And>a. f a \<noteq> Inl e) \<Longrightarrow> then_exn r f \<noteq> Inl e"
  by (cases r) (simp_all add: then_exn_def)

lemma column_not_Raised: "column df c \<noteq> Inl (Raised s)"
  by (simp add: column_def split: option.splits)

lemma dt_accessor_not_Raised: "dt_accessor df c vs \<noteq> Inl (Raised s)"
  by (simp add: dt_accessor_def not_datetimelike_def split: option.splits)

lemma merge_columns_not_ValidationError:
  "merge_columns df new \<noteq> Inl (Raised ''ValidationError'')"
  by (simp add: merge_columns_def Let_def)

lemma engineer_features_no_ValidationError:
  "engineer_features df \<noteq> Inl (Raised ''ValidationError'')"
  unfolding engineer_features_def Let_def
  by (intro then_exn_not_Inl column_not_Raised dt_accessor_not_Raised
      merge_columns_not_ValidationError)
    (simp_all split: list.splits)

lemma fit_and_score_engineer_raises:
  "engineer_features df = Inl e \<Longrightarrow>
   fit_and_score sk self df = (Inl e, self, [LogInfo ''Starting model training and scoring''])"
  by (simp add: fit_and_score_def)

lemma fit_and_score_needs_rows:
  assumes "nrows df = 0"
  shows "\<exists>e. fst (fit_and_score sk self df) = Inl e"
proof (cases "fst (fit_and_score sk self df)")
  case (Inl e)
  then show ?thesis by blast
next
  case (Inr r)
  obtain p scored where r: "r = (p, scored)" by (cases r)
  from Inr have a: "fst (fit_and_score sk self df) = Inr (p, scored)" by (simp add: r)
  from fit_and_score_Inr [OF a] obtain scores risk
    where "risk_scores scores = Inr risk" "length risk = nrows df"
    by blast
  from scored_frame_risk [OF this] assms show ?thesis by simp
qed

lemma fit_and_score_after_features:
  assumes ef: "engineer_features df = Inr feat" and n: "nrows df = 0"
  shows "\<exists>e d. fit_and_score sk self df =
       (Inl e, d, [LogInfo ''Starting model training and scoring'']) \<and>
     pipeline d = Some (snd (pipeline_fit sk (build_pipeline sk self) feat))"
proof -
  obtain err q where fit: "pipeline_fit sk (build_pipeline sk self) feat = (err, q)"
    by (cases "pipeline_fit sk (build_pipeline sk self) feat")
  show ?thesis
  proof (cases err)
    case (Some e)
    then show ?thesis by (simp add: fit_and_score_def ef fit)
  next
    case None
    from fit_and_score_needs_rows [OF n, of sk self] obtain e
      where e: "fst (fit_and_score sk self df) = Inl e"
      by blast
    obtain r d l where run: "fit_and_score sk self df = (r, d, l)"
      by (cases "fit_and_score sk self df")
    from e run have r: "r = Inl e" by simp
    from run have "d = self\<lparr>pipeline := Some q, feature_columns := Some (columns feat)\<rparr> \<and>
        l = [LogInfo ''Starting model training and scoring'']"
      unfolding r
      by (simp only: fit_and_score_def Let_def ef fit None sum.case prod.case option.case
          split: sum.splits)
        simp_all
    then show ?thesis by (simp add: run r fit)
  qed
qed

text \<open>
  C2, as the code has it. Neither function checks for an empty batch, and the code has no
  \<open>ValidationError\<close>. On a batch with no rows \<open>fit_and_score\<close> always raises and
  returns no table, and \<open>engineer_features\<close> never raises a \<open>ValidationError\<close>.
  What \<open>engineer_features\<close> raises, \<open>fit_and_score\<close> raises too, after logging
  its start and with the detector unchanged: \<open>KeyError\<close> for \<open>access_time\<close> when
  the batch has no such column (\<open>pd.DataFrame([])\<close>, which is what the generators
  return for \<open>n = 0\<close>), \<open>AttributeError\<close> when the empty column \<open>access_time\<close>
  has no datetime dtype. When \<open>engineer_features\<close> returns, it returns a table with
  no rows, and \<open>fit_and_score\<close> raises with the new pipeline left in the detector:
  the exception is the one the library's \<open>fit\<close> raises on the empty table, or one of
  the scoring that follows.
\<close>

theorem empty_batch_raises_other_errors:
  assumes "nrows df = 0"
  shows "(\<exists>e. fst (fit_and_score sk self df) = Inl e) \<and>
    engineer_features df \<noteq> Inl (Raised ''ValidationError'') \<and>
    (\<forall>e. engineer_features df = Inl e \<longrightarrow>
       fit_and_score sk self df =
         (Inl e, self, [LogInfo ''Starting model training and scoring''])) \<and>
    (''access_time'' \<notin> set (columns df) \<longrightarrow>
       engineer_features df = Inl (KeyError [''access_time''])) \<and>
    (column df ''access_time'' = Inr [] \<and> ''access_time'' \<notin> set (empty_datetime64 df) \<longrightarrow>
       engineer_features df = Inl not_datetimelike) \<and>
    (\<forall>feat. engineer_features df = Inr feat \<longrightarrow>
       nrows feat = 0 \<and>
       (\<exists>e d. fit_and_score sk self df =
            (Inl e, d, [LogInfo ''Starting model training and scoring'']) \<and>
          pipeline d = Some (snd (pipeline_fit sk (build_pipeline sk self) feat))))"
proof (intro conjI allI impI)
  show "\<exists>e. fst (fit_and_score sk self df) = Inl e"
    using assms by (rule fit_and_score_needs_rows)
  show "engineer_features df \<noteq> Inl (Raised ''ValidationError'')"
    by (rule engineer_features_no_ValidationError)
  show "fit_and_score sk self df =
      (Inl e, self, [LogInfo ''Starting model training and scoring''])"
    if "engineer_features df = Inl e" for e
    using that by (rule fit_and_score_engineer_raises)
  show "engineer_features df = Inl (KeyError [''access_time''])"
    if "''access_time'' \<notin> set (columns df)"
    using that by (rule engineer_features_no_access_time)
  show "engineer_features df = Inl not_datetimelike"
    if "column df ''access_time'' = Inr [] \<and> ''access_time'' \<notin> set (empty_datetime64 df)"
    using that by (simp add: engineer_features_not_datetime)
  show "nrows feat = 0" if "engineer_features df = Inr feat" for feat
    using engineer_features_wf [OF that] assms by simp
  show "\<exists>e d. fit_and_score sk self df =
         (Inl e, d, [LogInfo ''Starting model training and scoring'']) \<and>
       pipeline d = Some (snd (pipeline_fit sk (build_pipeline sk self) feat))"
    if "engineer_features df = Inr feat" for feat
    using that assms by (rule fit_and_score_after_features)
qed

lemma empty_frame_run:
  "nrows (DataFrame []) = 0 \<and> columns (DataFrame []) = [] \<and>
   engineer_features (DataFrame []) = Inl (KeyError [''access_time'']) \<and>
   fit_and_score threshold_sklearn fresh_detector (DataFrame []) =
     (Inl (KeyError [''access_time'']), fresh_detector,
      [LogInfo ''Starting model training and scoring''])"
  by code_simp

lemma empty_object_events_run:
  "nrows empty_object_events = 0 \<and>
   column empty_object_events ''access_time'' = Inr [] \<and>
   ''access_time'' \<notin> set (empty_datetime64 empty_object_events) \<and>
   engineer_features empty_object_events = Inl not_datetimelike \<and>
   fit_and_score threshold_sklearn fresh_detector empty_object_events =
     (Inl not_datetimelike, fresh_detector, [LogInfo ''Starting model training and scoring''])"
  by code_simp

lemma empty_events_run:
  "nrows empty_events = 0 \<and>
   engineer_features empty_events = Inr empty_features \<and> nrows empty_features = 0 \<and>
   frame_rows empty_features = [] \<and>
   fit_and_score threshold_sklearn fresh_detector empty_events =
     (Inl (ValueError ''Found array with 0 sample(s)''),
      fresh_detector\<lparr>pipeline := Some (build_pipeline threshold_sklearn fresh_detector)\<rparr>,
      [LogInfo ''Starting model training and scoring''])"
  by code_simp

theorem empty_batch_raises_other_errors_witness:
  "nrows (DataFrame []) = 0 \<and>
   engineer_features (DataFrame []) = Inl (KeyError [''access_time'']) \<and>
   fit_and_score threshold_sklearn fresh_detector (DataFrame []) =
     (Inl (KeyError [''access_time'']), fresh_detector,
      [LogInfo ''Starting model training and scoring'']) \<and>
   nrows empty_object_events = 0 \<and>
   column empty_object_events ''access_time'' = Inr [] \<and>
   engineer_features empty_object_events = Inl not_datetimelike \<and>
   fit_and_score threshold_sklearn fresh_detector empty_object_events =
     (Inl not_datetimelike, fresh_detector, [LogInfo ''Starting model training and scoring'']) \<and>
   nrows empty_events = 0 \<and>
   engineer_features empty_events = Inr empty_features \<and> nrows empty_features = 0 \<and>
   (\<exists>e d. fit_and_score threshold_sklearn fresh_detector empty_events =
        (Inl e, d, [LogInfo ''Starting model training and scoring'']) \<and>
      pipeline d =
        Some (snd (pipeline_fit threshold_sklearn
                     (build_pipeline threshold_sklearn fresh_detector) empty_features))) \<and>
   fit_and_score threshold_sklearn fresh_detector empty_events =
     (Inl (ValueError ''Found array with 0 sample(s)''),
      fresh_detector\<lparr>pipeline := Some (build_pipeline threshold_sklearn fresh_detector)\<rparr>,
      [LogInfo ''Starting model training and scoring''])"
proof -
  have a: "nrows (DataFrame []) = 0" "''access_time'' \<notin> set (columns (DataFrame []))"
    using empty_frame_run by simp_all
  have b: "nrows empty_object_events = 0" "column empty_object_events ''access_time'' = Inr []"
    "''access_time'' \<notin> set (empty_datetime64 empty_object_events)"
    using empty_object_events_run by blast+
  have c: "nrows empty_events = 0" "engineer_features empty_events = Inr empty_features"
    using empty_events_run by blast+
  from empty_batch_raises_other_errors [OF a(1), of threshold_sklearn fresh_detector] a(2)
  have a1: "engineer_features (DataFrame []) = Inl (KeyError [''access_time''])"
    by blast
  from empty_batch_raises_other_errors [OF a(1), of threshold_sklearn fresh_detector] a1
  have a2: "fit_and_score threshold_sklearn fresh_detector (DataFrame []) =
     (Inl (KeyError [''access_time'']), fresh_detector,
      [LogInfo ''Starting model training and scoring''])"
    by blast
  from empty_batch_raises_other_errors [OF b(1), of threshold_sklearn fresh_detector] b(2,3)
  have b1: "engineer_features empty_object_events = Inl not_datetimelike"
    by blast
  from empty_batch_raises_other_errors [OF b(1), of threshold_sklearn fresh_detector] b1
  have b2: "fit_and_score threshold_sklearn fresh_detector empty_object_events =
     (Inl not_datetimelike, fresh_detector, [LogInfo ''Starting model training and scoring''])"
    by blast
  from empty_batch_raises_other_errors [OF c(1), of threshold_sklearn fresh_detector] c(2)
  have c1: "nrows empty_features = 0 \<and>
    (\<exists>e d. fit_and_score threshold_sklearn fresh_detector empty_events =
        (Inl e, d, [LogInfo ''Starting model training and scoring'']) \<and>
      pipeline d =
        Some (snd (pipeline_fit threshold_sklearn
                     (build_pipeline threshold_sklearn fresh_detector) empty_features)))"
    by blast
  have c2: "fit_and_score threshold_sklearn fresh_detector empty_events =
     (Inl (ValueError ''Found array with 0 sample(s)''),
      fresh_detector\<lparr>pipeline := Some (build_pipeline threshold_sklearn fresh_detector)\<rparr>,
      [LogInfo ''Starting model training and scoring''])"
    using empty_events_run by blast
  from a(1) a1 a2 b(1,2) b1 b2 c c1 c2 show ?thesis by (intro conjI) blast+
qed

text \<open>
  C2 as stated fails. On \<open>pd.DataFrame([])\<close>, which the generators return for
  \<open>n = 0\<close>, both functions raise \<open>KeyError\<close>, which is not a
  \<open>ValidationError\<close>; and on an empty batch that keeps the columns and dtypes of a
  table of events, \<open>engineer_features\<close> does not raise at all and returns a table
  with no rows.
\<close>

theorem empty_batch_no_ValidationError:
  "generate_normal_events counter_sources 0 None 60 day_2024_01_01 (counters 0 0 0) =
     Inr (DataFrame [], counters 0 0 0) \<and>
   engineer_features (DataFrame []) = Inl (KeyError [''access_time'']) \<and>
   fst (fit_and_score threshold_sklearn (AnomalyDetector (2 / 100) 300) (DataFrame [])) =
     Inl (KeyError [''access_time'']) \<and>
   KeyError [''access_time''] \<noteq> Raised ''ValidationError'' \<and>
   nrows empty_events = 0 \<and>
   engineer_features empty_events = Inr empty_features \<and>
   frame_rows empty_features = []"
  by code_simp


subsection \<open>Missing feature columns\<close>

lemma fold_set_scalar:
  "nrows (fold (\<lambda>f d. set_scalar d f v) ms d) = nrows d \<and>
   map_of (cols (fold (\<lambda>f d. set_scalar d f v) ms d)) c =
     (if c \<in> set ms then Some (replicate (nrows d) v) else map_of (cols d) c)"
proof (induction ms arbitrary: d)
  case Nil
  show ?case by simp
next
  case (Cons m ms)
  have "nrows (set_scalar d m v) = nrows d"
    by (simp add: set_scalar_def assign_def)
  moreover have "map_of (cols (set_scalar d m v)) c' =
      (if c' = m then Some (replicate (nrows d) v) else map_of (cols d) c')" for c'
    by (simp add: set_scalar_def assign_def update_conv')
  ultimately show ?case using Cons [of "set_scalar d m v"] by simp
qed

lemma select_Inr:
  assumes "set cs \<subseteq> set (columns d)"
  shows "select d cs =
     Inr (d\<lparr>cols := map (\<lambda>c. (c, case map_of (cols d) c of Some vs \<Rightarrow> vs | None \<Rightarrow> [])) cs\<rparr>)"
proof -
  from assms have "filter (\<lambda>c. c \<notin> set (columns d)) cs = []"
    by (auto simp: filter_empty_conv)
  then show ?thesis by (simp add: select_def)
qed

lemma in_columns_iff: "c \<in> set (columns d) \<longleftrightarrow> map_of (cols d) c \<noteq> None"
  by (simp add: columns_def map_of_eq_None_iff)

lemma risk_scores_total:
  "scores \<noteq> [] \<Longrightarrow> \<exists>risk. risk_scores scores = Inr risk \<and> length risk = length scores"
  by (simp add: risk_scores_def Let_def)

text \<open>
  C7, as the code has it. The reconciliation comes after feature engineering. When
  \<open>engineer_features\<close> succeeds on the new batch and a column of the fit-time
  \<open>feature_columns\<close> is not in its result, \<open>predict_new_data\<close> scores the table
  \<open>F\<close> with exactly the fit-time columns in which every missing column is 0 in every
  row and the others are as engineered, logs one warning with the set of missing
  columns, and does not raise because of them: if the library's \<open>transform\<close>,
  \<open>score_samples\<close> and \<open>predict\<close> succeed on \<open>F\<close> with one score and one label
  for each row of a batch that is not empty, the method returns the scored table.
\<close>

theorem missing_feature_filled_with_zero:
  assumes p: "pipeline self = Some p" and fc: "feature_columns self = Some fc"
    and ef: "engineer_features df = Inr df_feat"
    and missing: "\<not> set fc \<subseteq> set (columns df_feat)"
  shows "\<exists>F. filled_with_zero F df_feat fc \<and>
     snd (predict_new_data sk self df) =
       [LogWarning ''Missing features: '' (set fc - set (columns df_feat))] \<and>
     (\<forall>X scores preds.
        prep_transform sk p F = Inr X \<and> model_score_samples sk p X = Inr scores \<and>
        model_predict sk p X = Inr preds \<and> length scores = nrows df \<and>
        length preds = nrows df \<and> 0 < nrows df \<longrightarrow>
        (\<exists>risk. risk_scores scores = Inr risk \<and>
           fst (predict_new_data sk self df) = Inr (scored_frame df risk preds)))"
proof -
  define ms where "ms = remdups (filter (\<lambda>c. c \<notin> set (columns df_feat)) fc)"
  define d where "d = fold (\<lambda>feature d. set_scalar d feature (Num 0)) ms df_feat"
  define F where
    "F = d\<lparr>cols := map (\<lambda>c. (c, case map_of (cols d) c of Some vs \<Rightarrow> vs | None \<Rightarrow> [])) fc\<rparr>"
  have ms: "set ms = set fc - set (columns df_feat)" by (auto simp: ms_def)
  from missing have ne: "ms \<noteq> []" by (auto simp: ms_def filter_empty_conv)
  have n: "nrows d = nrows df_feat"
    unfolding d_def using fold_set_scalar [of "Num 0" ms df_feat] by simp
  have look: "map_of (cols d) c =
      (if c \<in> set ms then Some (replicate (nrows df_feat) (Num 0))
       else map_of (cols df_feat) c)" for c
    unfolding d_def using fold_set_scalar [of "Num 0" ms df_feat c] by simp
  have present: "set fc \<subseteq> set (columns d)"
  proof
    fix c
    assume c: "c \<in> set fc"
    have "map_of (cols d) c \<noteq> None"
    proof (cases "c \<in> set ms")
      case True
      then show ?thesis by (simp add: look)
    next
      case False
      with c ms have "c \<in> set (columns df_feat)" by simp
      then have "map_of (cols df_feat) c \<noteq> None" by (rule in_columns_iff [THEN iffD1])
      with False show ?thesis by (simp add: look)
    qed
    then show "c \<in> set (columns d)" by (rule in_columns_iff [THEN iffD2])
  qed
  have sel: "select d fc = Inr F" unfolding F_def by (rule select_Inr [OF present])
  have nd: "nrows df_feat = nrows df" using engineer_features_wf [OF ef] by simp
  have col: "column F c =
      (if c \<in> set (columns df_feat) then column df_feat c
       else Inr (replicate (nrows df_feat) (Num 0)))" if c: "c \<in> set fc" for c
  proof (cases "c \<in> set ms")
    case True
    with ms have "c \<notin> set (columns df_feat)" by simp
    moreover have "column F c = Inr (replicate (nrows df_feat) (Num 0))"
      using c True by (simp add: column_def F_def map_of_tabulate look)
    ultimately show ?thesis by simp
  next
    case False
    with c ms have in_cols: "c \<in> set (columns df_feat)" by simp
    then obtain vs where vs: "map_of (cols df_feat) c = Some vs"
      using in_columns_iff [of c df_feat] by auto
    have "column F c = Inr vs"
      using c False by (simp add: column_def F_def map_of_tabulate look vs)
    moreover have "column df_feat c = Inr vs" by (simp add: column_def vs)
    ultimately show ?thesis using in_cols by simp
  qed
  have "columns F = fc" by (simp add: F_def columns_def comp_def)
  moreover have "nrows F = nrows df_feat" by (simp add: F_def n)
  ultimately have filled: "filled_with_zero F df_feat fc"
    unfolding filled_with_zero_def list_all_iff using col by blast
  have run: "predict_new_data sk self df =
      (then_exn (prep_transform sk p F) (\<lambda>X.
       then_exn (model_score_samples sk p X) (\<lambda>scores.
       then_exn (risk_scores scores) (\<lambda>risk.
       then_exn (prep_transform sk p F) (\<lambda>X'.
       then_exn (model_predict sk p X') (\<lambda>preds.
       then_exn (set_column df ''risk_score'' (map (\<lambda>x. Num (py_round x 2)) risk)) (\<lambda>s1.
       set_column s1 ''anomaly_flag'' (map (\<lambda>y. Bool (y = - 1)) preds))))))),
       [LogWarning ''Missing features: '' (set fc - set (columns df_feat))])"
    unfolding predict_new_data_def Let_def
    by (simp only: p fc ef option.case sum.case ms_def [symmetric] d_def [symmetric] sel
        then_exn_Inr_apply ne ms if_False)
  have "\<exists>risk. risk_scores scores = Inr risk \<and>
           fst (predict_new_data sk self df) = Inr (scored_frame df risk preds)"
    if lib: "prep_transform sk p F = Inr X" "model_score_samples sk p X = Inr scores"
      "model_predict sk p X = Inr preds" "length scores = nrows df" "length preds = nrows df"
      "0 < nrows df" for X scores preds
  proof -
    from lib(4,6) have "scores \<noteq> []" by auto
    from risk_scores_total [OF this] lib(4) obtain risk
      where r: "risk_scores scores = Inr risk" "length risk = nrows df" by auto
    from scoring_chain_run [OF lib(1,2) r(1) lib(3) r(2) lib(5)] r(1) show ?thesis
      by (simp add: run)
  qed
  with filled run show ?thesis by (intro exI [of _ F]) auto
qed

lemma features_without_id_run:
  "engineer_features (drop_column ''event_id'' normal_example) = Inr features_without_id"
  by code_simp

lemma id_missing: "\<not> set fit_time_columns \<subseteq> set (columns features_without_id)"
  by code_simp

lemma predict_without_id_run:
  "predict_new_data threshold_sklearn fitted_detector (drop_column ''event_id'' normal_example) =
     (Inr rescored_without_id, [LogWarning ''Missing features: '' {''event_id''}])"
  by code_simp

theorem missing_feature_filled_with_zero_witness:
  "pipeline fitted_detector = Some fitted_pipeline \<and>
   feature_columns fitted_detector = Some fit_time_columns \<and>
   engineer_features (drop_column ''event_id'' normal_example) = Inr features_without_id \<and>
   \<not> set fit_time_columns \<subseteq> set (columns features_without_id) \<and>
   (\<exists>F. filled_with_zero F features_without_id fit_time_columns \<and>
      snd (predict_new_data threshold_sklearn fitted_detector
             (drop_column ''event_id'' normal_example)) =
        [LogWarning ''Missing features: ''
           (set fit_time_columns - set (columns features_without_id))]) \<and>
   predict_new_data threshold_sklearn fitted_detector (drop_column ''event_id'' normal_example) =
     (Inr rescored_without_id, [LogWarning ''Missing features: '' {''event_id''}])"
proof -
  have p: "pipeline fitted_detector = Some fitted_pipeline"
    and fc: "feature_columns fitted_detector = Some fit_time_columns"
    by (simp_all add: fitted_detector_def)
  from missing_feature_filled_with_zero [OF p fc features_without_id_run id_missing,
      of threshold_sklearn]
  have "\<exists>F. filled_with_zero F features_without_id fit_time_columns \<and>
      snd (predict_new_data threshold_sklearn fitted_detector
             (drop_column ''event_id'' normal_example)) =
        [LogWarning ''Missing features: ''
           (set fit_time_columns - set (columns features_without_id))]"
    by blast
  with p fc features_without_id_run id_missing predict_without_id_run show ?thesis
    by simp
qed

text \<open>
  C7 as stated fails: a fit-time feature column that \<open>engineer_features\<close> itself
  reads is not reconciled. The detector fitted on a batch with \<open>file_size_MB\<close> raises
  \<open>KeyError\<close> on the same batch without that column, and logs no diagnostic.
\<close>

theorem missing_input_column_raises:
  "fst (snd (fit_and_score threshold_sklearn (AnomalyDetector (2 / 100) 300) normal_example)) =
     fitted_detector \<and>
   feature_columns fitted_detector = Some fit_time_columns \<and>
   ''file_size_MB'' \<in> set fit_time_columns \<and>
   ''file_size_MB'' \<notin> set (columns (drop_column ''file_size_MB'' normal_example)) \<and>
   predict_new_data threshold_sklearn fitted_detector
     (drop_column ''file_size_MB'' normal_example) = (Inl (KeyError [''file_size_MB'']), [])"
  by code_simp

subsection \<open>Loading a model\<close>

lemma load_model_absent:
  "fs (model_path self) = None \<Longrightarrow> load_model jl self fs = (Inr False, self, [])"
  by (simp add: load_model_def load_model_try_def)

lemma load_model_corrupt:
  "fs (model_path self) = Some content \<Longrightarrow> joblib_load jl content = Inl e \<Longrightarrow>
   load_model jl self fs = (Inr False, self, [LogError ''Failed to load model: '' e])"
  by (simp add: load_model_def load_model_try_def)

lemma load_model_loaded:
  assumes "fs (model_path self) = Some content" "joblib_load jl content = Inr md"
  shows "fst (load_model jl self fs) = Inr (four_keys md)"
proof (cases "md_pipeline md")
  case None
  with assms show ?thesis by (simp add: load_model_def load_model_try_def four_keys_def)
next
  case p: (Some p)
  show ?thesis
  proof (cases "md_feature_columns md")
    case None
    with assms p show ?thesis by (simp add: load_model_def load_model_try_def four_keys_def)
  next
    case fc: (Some fc)
    show ?thesis
    proof (cases "md_contamination md")
      case None
      with assms p fc show ?thesis
        by (simp add: load_model_def load_model_try_def four_keys_def)
    next
      case c: (Some c)
      show ?thesis
      proof (cases "md_n_estimators md")
        case None
        with assms p fc c show ?thesis
          by (simp add: load_model_def load_model_try_def four_keys_def)
      next
        case (Some n)
        with assms p fc c show ?thesis
          by (simp add: load_model_def load_model_try_def four_keys_def)
      qed
    qed
  qed
qed

text \<open>
  C3, as the code has it. \<open>load_model\<close> never raises: its whole body is inside
  \<open>try ... except Exception\<close>. It returns \<open>True\<close> exactly when the file exists and
  loads to a dict with the four keys. When the file does not exist it returns
  \<open>False\<close>, logs nothing and leaves the detector as it was; when the file exists and
  cannot be deserialized it logs the exception as an error and returns \<open>False\<close> as
  well, the detector unchanged.
\<close>

theorem load_model_never_raises:
  "fst (load_model jl self fs) =
     Inr (case fs (model_path self) of
            None \<Rightarrow> False
          | Some content \<Rightarrow>
              (case joblib_load jl content of Inl e \<Rightarrow> False | Inr md \<Rightarrow> four_keys md)) \<and>
   (fs (model_path self) = None \<longrightarrow> load_model jl self fs = (Inr False, self, [])) \<and>
   (\<forall>content e. fs (model_path self) = Some content \<and> joblib_load jl content = Inl e \<longrightarrow>
      load_model jl self fs = (Inr False, self, [LogError ''Failed to load model: '' e]))"
proof (intro conjI allI impI)
  show "fst (load_model jl self fs) =
     Inr (case fs (model_path self) of
            None \<Rightarrow> False
          | Some content \<Rightarrow>
              (case joblib_load jl content of Inl e \<Rightarrow> False | Inr md \<Rightarrow> four_keys md))"
  proof (cases "fs (model_path self)")
    case None
    then show ?thesis by (simp add: load_model_absent)
  next
    case (Some content)
    then show ?thesis
      by (cases "joblib_load jl content") (simp_all add: load_model_corrupt load_model_loaded)
  qed
next
  assume "fs (model_path self) = None"
  then show "load_model jl self fs = (Inr False, self, [])" by (rule load_model_absent)
next
  fix content e
  assume "fs (model_path self) = Some content \<and> joblib_load jl content = Inl e"
  then show "load_model jl self fs = (Inr False, self, [LogError ''Failed to load model: '' e])"
    by (simp add: load_model_corrupt)
qed

text \<open>
  C3 as stated fails: with a model file that exists and cannot be deserialized,
  \<open>load_model\<close> raises nothing; it returns \<open>False\<close>, the result it gives for a
  missing file.
\<close>

theorem corrupt_file_not_raised:
  "corrupt_store (model_path fresh_detector) = Some None \<and>
   joblib_load option_joblib (None :: (pipeline_params \<times> real option) model_data option) =
     Inl (Raised ''UnpicklingError'') \<and>
   load_model option_joblib fresh_detector corrupt_store =
     (Inr False, fresh_detector,
      [LogError ''Failed to load model: '' (Raised ''UnpicklingError'')])"
  by code_simp

theorem load_model_never_raises_witness:
  "corrupt_store (model_path fresh_detector) = Some None \<and>
   joblib_load option_joblib (None :: (pipeline_params \<times> real option) model_data option) =
     Inl (Raised ''UnpicklingError'') \<and>
   fst (load_model option_joblib fresh_detector corrupt_store) = Inr False \<and>
   Map.empty (model_path fresh_detector) =
     (None :: (pipeline_params \<times> real option) model_data option option) \<and>
   load_model option_joblib fresh_detector Map.empty = (Inr False, fresh_detector, [])"
proof -
  have a: "corrupt_store (model_path fresh_detector) = Some None"
    and b: "joblib_load option_joblib (None :: (pipeline_params \<times> real option) model_data option) =
     Inl (Raised ''UnpicklingError'')"
    by code_simp+
  from load_model_never_raises [of option_joblib fresh_detector corrupt_store] a b
  have "fst (load_model option_joblib fresh_detector corrupt_store) = Inr False" by simp
  moreover from load_model_never_raises [of option_joblib fresh_detector Map.empty]
  have "load_model option_joblib fresh_detector Map.empty = (Inr False, fresh_detector, [])"
    by simp
  ultimately show ?thesis using a b by simp
qed


subsection \<open>Saving and loading\<close>

lemma predict_new_data_cong:
  assumes "pipeline a = pipeline b" "feature_columns a = feature_columns b"
  shows "predict_new_data sk a df = predict_new_data sk b df"
  unfolding predict_new_data_def assms ..

lemma save_model_Inr:
  assumes "save_model jl self fs = (Inr (), fs', l)"
  shows "\<exists>p content. pipeline self = Some p \<and>
     joblib_dump jl \<lparr>md_pipeline = Some (pipeline self),
                     md_feature_columns = Some (feature_columns self),
                     md_contamination = Some (contamination self),
                     md_n_estimators = Some (n_estimators self)\<rparr> = Inr content \<and>
     fs' = fs(model_path self \<mapsto> content)"
  using assms
  by (auto simp: save_model_def split: option.splits sum.splits)

text \<open>
  C6. With a \<open>joblib\<close> whose \<open>load\<close> returns what \<open>dump\<close> was given, after
  \<open>save_model\<close> has succeeded (so the detector has a pipeline), \<open>load_model\<close> on a
  detector with the same model path returns \<open>True\<close> and leaves it with the saved
  \<open>contamination\<close> and \<open>n_estimators\<close>, the saved pipeline object, which holds
  the categorical schema and the fitted ensemble, and the saved ordered
  \<open>feature_columns\<close>; \<open>predict_new_data\<close> then returns on every batch what it
  returns for the detector that was saved.
\<close>

theorem save_load_round_trip:
  assumes rt: "joblib_round_trip jl"
    and saved: "save_model jl self fs = (Inr (), fs', l)"
    and path: "model_path other = model_path self"
  shows "\<exists>loaded.
     load_model jl other fs' =
       (Inr True, loaded, [LogInfo (''Model loaded from '' @ model_path self)]) \<and>
     contamination loaded = contamination self \<and> n_estimators loaded = n_estimators self \<and>
     pipeline loaded = pipeline self \<and> pipeline loaded \<noteq> None \<and>
     feature_columns loaded = feature_columns self \<and>
     (\<forall>df. predict_new_data sk loaded df = predict_new_data sk self df)"
proof -
  let ?md = "\<lparr>md_pipeline = Some (pipeline self),
              md_feature_columns = Some (feature_columns self),
              md_contamination = Some (contamination self),
              md_n_estimators = Some (n_estimators self)\<rparr>"
  from save_model_Inr [OF saved] obtain p content
    where p: "pipeline self = Some p" and dump: "joblib_dump jl ?md = Inr content"
      and fs': "fs' = fs(model_path self \<mapsto> content)"
    by blast
  from rt dump have load: "joblib_load jl content = Inr ?md"
    unfolding joblib_round_trip_def by blast
  let ?loaded = "other\<lparr>pipeline := pipeline self, feature_columns := feature_columns self,
      contamination := contamination self, n_estimators := n_estimators self\<rparr>"
  have "load_model jl other fs' =
       (Inr True, ?loaded, [LogInfo (''Model loaded from '' @ model_path self)])"
    by (simp add: load_model_def load_model_try_def fs' path load)
  moreover have "predict_new_data sk ?loaded df = predict_new_data sk self df" for df
    by (rule predict_new_data_cong) simp_all
  ultimately show ?thesis using p by (intro exI [of _ ?loaded]) simp
qed

lemma option_joblib_round_trip: "joblib_round_trip option_joblib"
  by (simp add: joblib_round_trip_def option_joblib_def)

lemma save_example_run:
  "save_model option_joblib fitted_detector Map.empty =
     (Inr (), saved_store, [LogInfo ''Model saved to models/isolation_forest_model.pkl''])"
  by (simp add: save_model_def option_joblib_def fitted_detector_def AnomalyDetector_def
      MODELS_DIR_def saved_store_def)

lemma load_example_run:
  "load_model option_joblib other_detector saved_store =
     (Inr True, fitted_detector,
      [LogInfo ''Model loaded from models/isolation_forest_model.pkl''])"
  by code_simp

theorem save_load_round_trip_witness:
  "joblib_round_trip option_joblib \<and>
   save_model option_joblib fitted_detector Map.empty =
     (Inr (), saved_store, [LogInfo ''Model saved to models/isolation_forest_model.pkl'']) \<and>
   model_path other_detector = model_path fitted_detector \<and>
   load_model option_joblib other_detector saved_store =
     (Inr True, fitted_detector,
      [LogInfo ''Model loaded from models/isolation_forest_model.pkl'']) \<and>
   (\<exists>loaded.
      load_model option_joblib other_detector saved_store =
        (Inr True, loaded, [LogInfo (''Model loaded from '' @ model_path fitted_detector)]) \<and>
      contamination loaded = contamination fitted_detector \<and>
      n_estimators loaded = n_estimators fitted_detector \<and>
      pipeline loaded = pipeline fitted_detector \<and>
      feature_columns loaded = feature_columns fitted_detector \<and>
      predict_new_data threshold_sklearn loaded normal_example =
        predict_new_data threshold_sklearn fitted_detector normal_example)"
proof -
  have path: "model_path other_detector = model_path fitted_detector"
    by (simp add: other_detector_def fitted_detector_def AnomalyDetector_def)
  from save_load_round_trip [OF option_joblib_round_trip save_example_run path,
      of threshold_sklearn]
  have "\<exists>loaded.
      load_model option_joblib other_detector saved_store =
        (Inr True, loaded, [LogInfo (''Model loaded from '' @ model_path fitted_detector)]) \<and>
      contamination loaded = contamination fitted_detector \<and>
      n_estimators loaded = n_estimators fitted_detector \<and>
      pipeline loaded = pipeline fitted_detector \<and>
      feature_columns loaded = feature_columns fitted_detector \<and>
      predict_new_data threshold_sklearn loaded normal_example =
        predict_new_data threshold_sklearn fitted_detector normal_example"
    by blast
  with option_joblib_round_trip save_example_run path load_example_run show ?thesis
    by simp
qed

end
